theory Spec2Isabelle
  imports Complex_Main "HOL-Library.AList"
begin

section \<open>Data model\<close>

text \<open>
  The interface \<^verbatim>\<open>Article\<close> of the pages. A field that may be \<^verbatim>\<open>null\<close> or
  missing is an option; \<^verbatim>\<open>source\<close> is kept as the name it carries. Strings are lists of
  code units below 256.
\<close>

record article =
  title :: string
  description :: "string option"
  url :: string
  urlToImage :: "string option"
  author :: "string option"
  publishedAt :: string
  source :: "string option"
  atype :: string

section \<open>Filter state (store/filtersSlice.ts)\<close>

datatype filter_type = News | Blogs | All

record FiltersState =
  ftype :: filter_type
  searchTerm :: string
  selectedAuthor :: string
  startDate :: string
  endDate :: string

definition initialState :: FiltersState where
  "initialState =
     \<lparr>ftype = News, searchTerm = '''', selectedAuthor = ''All'', startDate = '''', endDate = ''''\<rparr>"

text \<open>The reducers assign the fields one after the other, in the order of the source.\<close>

definition setType :: "FiltersState \<Rightarrow> filter_type \<Rightarrow> FiltersState" where
  "setType state payload =
     (let state = state\<lparr>ftype := payload\<rparr>;
          state = state\<lparr>selectedAuthor := ''All''\<rparr>;
          state = state\<lparr>searchTerm := ''''\<rparr>;
          state = state\<lparr>startDate := ''''\<rparr>;
          state = state\<lparr>endDate := ''''\<rparr>
      in state)"

definition setSearchTerm :: "FiltersState \<Rightarrow> string \<Rightarrow> FiltersState" where
  "setSearchTerm state payload = state\<lparr>searchTerm := payload\<rparr>"

definition setSelectedAuthor :: "FiltersState \<Rightarrow> string \<Rightarrow> FiltersState" where
  "setSelectedAuthor state payload = state\<lparr>selectedAuthor := payload\<rparr>"

definition setStartDate :: "FiltersState \<Rightarrow> string \<Rightarrow> FiltersState" where
  "setStartDate state payload = state\<lparr>startDate := payload\<rparr>"

definition setEndDate :: "FiltersState \<Rightarrow> string \<Rightarrow> FiltersState" where
  "setEndDate state payload = state\<lparr>endDate := payload\<rparr>"

definition resetFilters :: "FiltersState \<Rightarrow> FiltersState" where
  "resetFilters state =
     (let state = state\<lparr>selectedAuthor := ''All''\<rparr>;
          state = state\<lparr>searchTerm := ''''\<rparr>;
          state = state\<lparr>startDate := ''''\<rparr>;
          state = state\<lparr>endDate := ''''\<rparr>
      in state)"

section \<open>Environment of the fetcher and the pages\<close>

text \<open>
  A value kept in the IndexedDB object store "articles". The code stores objects of two
  shapes, \<^verbatim>\<open>{ articles, timestamp }\<close> and \<^verbatim>\<open>{ news, blogs, timestamp }\<close>; a field the object
  does not have reads as \<^verbatim>\<open>undefined\<close>, here \<open>None\<close>. A batch is an array or \<^verbatim>\<open>undefined\<close>.
\<close>

type_synonym batch = "article list option"

record cache_entry =
  ce_articles :: batch
  ce_news :: batch
  ce_blogs :: batch
  ce_timestamp :: "int option"

text \<open>
  The three requests the fetcher issues: top headlines without a category, category
  technology and category general.
\<close>

datatype endpoint = TopHeadlines | Technology | General

text \<open>
  An item of the provider's \<^verbatim>\<open>articles\<close> array, with the fields \<^verbatim>\<open>mapArticle\<close> reads; the
  elements of the array are taken to be objects of this shape.
\<close>

record raw_item =
  item_title :: string
  item_description :: "string option"
  item_url :: string
  item_urlToImage :: "string option"
  item_author :: "string option"
  item_publishedAt :: string
  item_source :: "string option"

text \<open>
  What \<^verbatim>\<open>data.articles\<close> is: missing or another falsy value, an array of items, or a truthy
  value that is no array. A response body is JSON \<^verbatim>\<open>null\<close> or some other JSON value, or no
  JSON at all (\<open>None\<close>). \<^verbatim>\<open>fetch\<close> either rejects or resolves to a response with its
  \<^verbatim>\<open>ok\<close> flag and body.
\<close>

datatype articles_field = Missing | Items "raw_item list" | NotAnArray

datatype json = JsonNull | JsonValue articles_field

datatype fetch_result = Rejected | Response bool "json option"

datatype error = FailedToFetch | NetworkError | SyntaxError | TypeError

text \<open>
  The world a call runs in: whether \<^verbatim>\<open>window\<close> is defined, \<^verbatim>\<open>navigator.onLine\<close>, the
  successive readings of \<^verbatim>\<open>Date.now()\<close> with the number of readings taken so far, the
  provider's answer to each request, the requests issued so far, and the object store.
  Opening the database and its transactions are taken to succeed.
\<close>

record world =
  has_window :: bool
  onLine :: bool
  clock :: "nat \<Rightarrow> int"
  ticks :: nat
  net :: "endpoint \<Rightarrow> fetch_result"
  requests :: "endpoint list"
  db :: "string \<rightharpoonup> cache_entry"

definition Date_now :: "world \<Rightarrow> int \<times> world" where
  "Date_now w = (clock w (ticks w), w\<lparr>ticks := Suc (ticks w)\<rparr>)"

definition fetch :: "world \<Rightarrow> endpoint \<Rightarrow> fetch_result \<times> world" where
  "fetch w ep = (net w ep, w\<lparr>requests := requests w @ [ep]\<rparr>)"

definition saveToIndexedDB :: "world \<Rightarrow> string \<Rightarrow> cache_entry \<Rightarrow> world" where
  "saveToIndexedDB w key v = w\<lparr>db := (db w)(key \<mapsto> v)\<rparr>"

definition getFromIndexedDB :: "world \<Rightarrow> string \<Rightarrow> cache_entry option" where
  "getFromIndexedDB w key = db w key"

section \<open>Remote fetcher (lib/fetchNews.ts)\<close>

definition res_json :: "json option \<Rightarrow> error + json" where
  "res_json body = (case body of None \<Rightarrow> Inl SyntaxError | Some data \<Rightarrow> Inr data)"

definition mapArticle :: "raw_item \<Rightarrow> string \<Rightarrow> article" where
  "mapArticle item type =
     \<lparr>title = item_title item, description = item_description item, url = item_url item,
      urlToImage = item_urlToImage item, author = item_author item,
      publishedAt = item_publishedAt item, source = item_source item, atype = type\<rparr>"

text \<open>
  \<^verbatim>\<open>(data.articles || []).map(f)\<close>: reading a property of \<^verbatim>\<open>null\<close> throws, a falsy field gives
  the empty array, and a truthy value without \<^verbatim>\<open>map\<close> throws.
\<close>

definition map_articles :: "json \<Rightarrow> (raw_item \<Rightarrow> article) \<Rightarrow> error + article list" where
  "map_articles data f =
     (case data of
        JsonNull \<Rightarrow> Inl TypeError
      | JsonValue Missing \<Rightarrow> Inr (map f [])
      | JsonValue (Items items) \<Rightarrow> Inr (map f items)
      | JsonValue NotAnArray \<Rightarrow> Inl TypeError)"

text \<open>\<^verbatim>\<open>Date.now() - cache.timestamp < 60 * 60 * 1000\<close>; without a timestamp the difference is
  \<^verbatim>\<open>NaN\<close> and the comparison is false.\<close>

definition within_hour :: "int \<Rightarrow> cache_entry \<Rightarrow> bool" where
  "within_hour now cache =
     (case ce_timestamp cache of None \<Rightarrow> False | Some t \<Rightarrow> now - t < 60 * 60 * 1000)"

definition fetchNews :: "world \<Rightarrow> (error + batch) \<times> world" where
  "fetchNews w0 =
     (let cacheKey = ''newsapi_news'';
          (hit, w1) =
            (if has_window w0 then
               (case getFromIndexedDB w0 cacheKey of
                  None \<Rightarrow> (None, w0)
                | Some cache \<Rightarrow>
                    (let (now, w) = Date_now w0
                     in if within_hour now cache then (Some (ce_articles cache), w)
                        else (None, w)))
             else (None, w0))
      in case hit of
           Some articles \<Rightarrow> (Inr articles, w1)
         | None \<Rightarrow>
             (let (res, w2) = fetch w1 TopHeadlines
              in case res of
                   Rejected \<Rightarrow> (Inl NetworkError, w2)
                 | Response ok body \<Rightarrow>
                     if \<not> ok then (Inl FailedToFetch, w2)
                     else
                       (case res_json body of
                          Inl e \<Rightarrow> (Inl e, w2)
                        | Inr data \<Rightarrow>
                            (case map_articles data (\<lambda>item. mapArticle item ''news'') of
                               Inl e \<Rightarrow> (Inl e, w2)
                             | Inr articles \<Rightarrow>
                                 (if has_window w2 then
                                    (let (now, w3) = Date_now w2
                                     in (Inr (Some articles),
                                         saveToIndexedDB w3 cacheKey
                                           \<lparr>ce_articles = Some articles, ce_news = None,
                                            ce_blogs = None, ce_timestamp = Some now\<rparr>))
                                  else (Inr (Some articles), w2))))))"

definition fetchNewsAndBlogs :: "world \<Rightarrow> (error + batch \<times> batch) \<times> world" where
  "fetchNewsAndBlogs w0 =
     (let cacheKey = ''newsapi_news_blogs'';
          (hit, w1) =
            (if has_window w0 then
               (case getFromIndexedDB w0 cacheKey of
                  None \<Rightarrow> (None, w0)
                | Some cache \<Rightarrow>
                    (let (now, w) = Date_now w0
                     in if within_hour now cache then (Some (ce_news cache, ce_blogs cache), w)
                        else (None, w)))
             else (None, w0))
      in case hit of
           Some r \<Rightarrow> (Inr r, w1)
         | None \<Rightarrow>
             (let (newsRes, w2) = fetch w1 Technology
              in case newsRes of
                   Rejected \<Rightarrow> (Inl NetworkError, w2)
                 | Response newsOk newsBody \<Rightarrow>
                     (case res_json newsBody of
                        Inl e \<Rightarrow> (Inl e, w2)
                      | Inr newsData \<Rightarrow>
                          (let (blogsRes, w3) = fetch w2 General
                           in case blogsRes of
                                Rejected \<Rightarrow> (Inl NetworkError, w3)
                              | Response blogsOk blogsBody \<Rightarrow>
                                  (case res_json blogsBody of
                                     Inl e \<Rightarrow> (Inl e, w3)
                                   | Inr blogsData \<Rightarrow>
                                       (case map_articles newsData
                                               (\<lambda>item. mapArticle item ''news'') of
                                          Inl e \<Rightarrow> (Inl e, w3)
                                        | Inr news \<Rightarrow>
                                            (case map_articles blogsData
                                                    (\<lambda>item. mapArticle item ''blogs'') of
                                               Inl e \<Rightarrow> (Inl e, w3)
                                             | Inr blogs \<Rightarrow>
                                                 (if has_window w3 then
                                                    (let (now, w4) = Date_now w3
                                                     in (Inr (Some news, Some blogs),
                                                         saveToIndexedDB w4 cacheKey
                                                           \<lparr>ce_articles = None,
                                                            ce_news = Some news,
                                                            ce_blogs = Some blogs,
                                                            ce_timestamp = Some now\<rparr>))
                                                  else (Inr (Some news, Some blogs), w3)))))))))"

section \<open>Cache orchestration of the pages\<close>

text \<open>
  Each page runs its effects on mount. An effect is a function from the component state
  and the world to the new state and world; the \<^verbatim>\<open>catch\<close> handlers of the source are the
  \<open>Inl\<close> branches.
\<close>

text \<open>\<^verbatim>\<open>cached && cached.news && cached.blogs\<close>: an entry with both arrays.\<close>

definition has_news_blogs :: "cache_entry option \<Rightarrow> bool" where
  "has_news_blogs cached =
     (case cached of None \<Rightarrow> False | Some c \<Rightarrow> ce_news c \<noteq> None \<and> ce_blogs c \<noteq> None)"

text \<open>\<^verbatim>\<open>cached && Array.isArray(cached.articles) && cached.articles.length > 0\<close>.\<close>

definition has_articles :: "cache_entry option \<Rightarrow> bool" where
  "has_articles cached =
     (case cached of
        None \<Rightarrow> False
      | Some c \<Rightarrow> (case ce_articles c of None \<Rightarrow> False | Some as \<Rightarrow> length as > 0))"

subsection \<open>Dashboard page \<^verbatim>\<open>Home\<close>\<close>

record home_state =
  hs_news :: batch
  hs_blogs :: batch
  hs_apiError :: bool
  hs_offlineArticles :: "(batch \<times> batch) option"

definition Home_init :: "article list \<Rightarrow> article list \<Rightarrow> home_state" where
  "Home_init ssrNews ssrBlogs =
     \<lparr>hs_news = Some ssrNews, hs_blogs = Some ssrBlogs, hs_apiError = False,
      hs_offlineArticles = None\<rparr>"

definition Home_hydrate ::
  "article list \<Rightarrow> article list \<Rightarrow> home_state \<Rightarrow> world \<Rightarrow> home_state \<times> world" where
  "Home_hydrate ssrNews ssrBlogs s w =
     (if has_window w then
        (let cached = getFromIndexedDB w ''newsapi_news_blogs''
         in if has_news_blogs cached then
              (s\<lparr>hs_news := ce_news (the cached), hs_blogs := ce_blogs (the cached),
                 hs_offlineArticles := Some (ce_news (the cached), ce_blogs (the cached))\<rparr>, w)
            else
              (let s' = s\<lparr>hs_news := Some ssrNews, hs_blogs := Some ssrBlogs,
                          hs_offlineArticles := None\<rparr>;
                   (now, w') = Date_now w
               in (s', saveToIndexedDB w' ''newsapi_news_blogs''
                         \<lparr>ce_articles = None, ce_news = Some ssrNews, ce_blogs = Some ssrBlogs,
                          ce_timestamp = Some now\<rparr>)))
      else (s, w))"

definition Home_refresh :: "home_state \<Rightarrow> world \<Rightarrow> home_state \<times> world" where
  "Home_refresh s w =
     (if has_window w \<and> onLine w then
        (let cached = getFromIndexedDB w ''newsapi_news_blogs''
         in if \<not> has_news_blogs cached then
              (case fetchNewsAndBlogs w of
                 (Inr (news, blogs), w1) \<Rightarrow>
                   (let s' = s\<lparr>hs_news := news, hs_blogs := blogs,
                               hs_offlineArticles := Some (news, blogs)\<rparr>;
                        (now, w2) = Date_now w1
                    in (s', saveToIndexedDB w2 ''newsapi_news_blogs''
                              \<lparr>ce_articles = None, ce_news = news, ce_blogs = blogs,
                               ce_timestamp = Some now\<rparr>))
               | (Inl e, w1) \<Rightarrow> (s\<lparr>hs_apiError := True\<rparr>, w1))
            else (s, w))
      else (s, w))"

definition Home_offline :: "home_state \<Rightarrow> world \<Rightarrow> home_state \<times> world" where
  "Home_offline s w =
     (if has_window w \<and> \<not> onLine w then
        (let cached = getFromIndexedDB w ''newsapi_news_blogs''
         in if has_news_blogs cached then
              (s\<lparr>hs_offlineArticles := Some (ce_news (the cached), ce_blogs (the cached))\<rparr>, w)
            else (s, w))
      else (s, w))"

text \<open>
  The empty-result fallback. Its test \<^verbatim>\<open>news.length === 0 && blogs.length === 0\<close> throws
  when the list it reads is \<^verbatim>\<open>undefined\<close>, and the effect then ends with the error.
\<close>

definition Home_emptyFallback :: "home_state \<Rightarrow> world \<Rightarrow> error + home_state \<times> world" where
  "Home_emptyFallback s w =
     (case hs_news s of
        None \<Rightarrow> Inl TypeError
      | Some news \<Rightarrow>
          if length news = 0 then
            (case hs_blogs s of
               None \<Rightarrow> Inl TypeError
             | Some blogs \<Rightarrow>
                 if length blogs = 0 \<and> has_window w then
                   (let cached = getFromIndexedDB w ''newsapi_news_blogs''
                    in if has_news_blogs cached then
                         Inr (s\<lparr>hs_offlineArticles :=
                                  Some (ce_news (the cached), ce_blogs (the cached))\<rparr>, w)
                       else Inr (s\<lparr>hs_apiError := True\<rparr>, w))
                 else Inr (s, w))
          else Inr (s, w))"

text \<open>
  The effects are asynchronous and independent. \<open>Home_mount\<close> is the schedule in which
  each runs to its end before the next starts, in the order of the source; so are the
  mounts of the other two pages below. In the browser the effects interleave: each reads
  the store before any of them has written, so with an empty store the refresh does call
  the fetcher, which this schedule does not show. With an entry in the store no effect of
  the dashboard or the analytics page writes, and all schedules agree.
\<close>

definition Home_mount ::
  "article list \<Rightarrow> article list \<Rightarrow> home_state \<Rightarrow> world \<Rightarrow> error + home_state \<times> world"
  where
  "Home_mount ssrNews ssrBlogs s w =
     (let (s1, w1) = Home_hydrate ssrNews ssrBlogs s w;
          (s2, w2) = Home_refresh s1 w1;
          (s3, w3) = Home_offline s2 w2
      in Home_emptyFallback s3 w3)"

subsection \<open>Analytics page \<^verbatim>\<open>NewsAnalytics\<close>\<close>

text \<open>
  The state that the effects write. The component has no error flag; its other state is
  the grouping of the charts and the colour scheme.
\<close>

record analytics_state =
  na_news :: batch
  na_blogs :: batch

definition NewsAnalytics_hydrate ::
  "article list \<Rightarrow> article list \<Rightarrow> analytics_state \<Rightarrow> world \<Rightarrow> analytics_state \<times> world"
  where
  "NewsAnalytics_hydrate ssrNews ssrBlogs s w =
     (if has_window w then
        (let cached = getFromIndexedDB w ''newsapi_news_blogs''
         in if has_news_blogs cached then
              (s\<lparr>na_news := ce_news (the cached), na_blogs := ce_blogs (the cached)\<rparr>, w)
            else
              (let s' = s\<lparr>na_news := Some ssrNews, na_blogs := Some ssrBlogs\<rparr>;
                   (now, w') = Date_now w
               in (s', saveToIndexedDB w' ''newsapi_news_blogs''
                         \<lparr>ce_articles = None, ce_news = Some ssrNews, ce_blogs = Some ssrBlogs,
                          ce_timestamp = Some now\<rparr>)))
      else (s, w))"

definition NewsAnalytics_refresh :: "analytics_state \<Rightarrow> world \<Rightarrow> analytics_state \<times> world"
  where
  "NewsAnalytics_refresh s w =
     (if has_window w \<and> onLine w then
        (let cached = getFromIndexedDB w ''newsapi_news_blogs''
         in if \<not> has_news_blogs cached then
              (case fetchNewsAndBlogs w of
                 (Inr (news, blogs), w1) \<Rightarrow>
                   (let s' = s\<lparr>na_news := news, na_blogs := blogs\<rparr>;
                        (now, w2) = Date_now w1
                    in (s', saveToIndexedDB w2 ''newsapi_news_blogs''
                              \<lparr>ce_articles = None, ce_news = news, ce_blogs = blogs,
                               ce_timestamp = Some now\<rparr>))
               | (Inl e, w1) \<Rightarrow> (s, w1))
            else (s, w))
      else (s, w))"

definition NewsAnalytics_offline :: "analytics_state \<Rightarrow> world \<Rightarrow> analytics_state \<times> world"
  where
  "NewsAnalytics_offline s w =
     (if has_window w \<and> \<not> onLine w then
        (let cached = getFromIndexedDB w ''newsapi_news_blogs''
         in if has_news_blogs cached then
              (s\<lparr>na_news := ce_news (the cached), na_blogs := ce_blogs (the cached)\<rparr>, w)
            else (s, w))
      else (s, w))"

definition NewsAnalytics_mount ::
  "article list \<Rightarrow> article list \<Rightarrow> analytics_state \<Rightarrow> world \<Rightarrow> analytics_state \<times> world"
  where
  "NewsAnalytics_mount ssrNews ssrBlogs s w =
     (let (s1, w1) = NewsAnalytics_hydrate ssrNews ssrBlogs s w;
          (s2, w2) = NewsAnalytics_refresh s1 w1
      in NewsAnalytics_offline s2 w2)"

subsection \<open>Payout page \<^verbatim>\<open>AdminPayout\<close>\<close>

text \<open>
  The state that the effects write. Spreading \<^verbatim>\<open>undefined\<close> in \<^verbatim>\<open>[...news, ...blogs]\<close> throws
  inside the \<^verbatim>\<open>then\<close> handler, and the empty \<^verbatim>\<open>catch\<close> handler swallows it.
\<close>

record payout_state =
  ap_articles :: "article list"

definition AdminPayout_hydrate ::
  "article list \<Rightarrow> payout_state \<Rightarrow> world \<Rightarrow> payout_state \<times> world" where
  "AdminPayout_hydrate ssrArticles s w =
     (if has_window w then
        (let cached = getFromIndexedDB w ''admin-payout-articles''
         in if has_articles cached then
              (s\<lparr>ap_articles := the (ce_articles (the cached))\<rparr>, w)
            else
              (let s' = s\<lparr>ap_articles := ssrArticles\<rparr>;
                   (now, w') = Date_now w
               in (s', saveToIndexedDB w' ''admin-payout-articles''
                         \<lparr>ce_articles = Some ssrArticles, ce_news = None, ce_blogs = None,
                          ce_timestamp = Some now\<rparr>)))
      else (s, w))"

definition AdminPayout_refresh :: "payout_state \<Rightarrow> world \<Rightarrow> payout_state \<times> world" where
  "AdminPayout_refresh s w =
     (if has_window w \<and> onLine w then
        (case fetchNewsAndBlogs w of
           (Inr (Some news, Some blogs), w1) \<Rightarrow>
             (let fresh = news @ blogs;
                  s' = s\<lparr>ap_articles := fresh\<rparr>;
                  (now, w2) = Date_now w1
              in (s', saveToIndexedDB w2 ''admin-payout-articles''
                        \<lparr>ce_articles = Some fresh, ce_news = None, ce_blogs = None,
                         ce_timestamp = Some now\<rparr>))
         | (Inr _, w1) \<Rightarrow> (s, w1)
         | (Inl e, w1) \<Rightarrow> (s, w1))
      else (s, w))"

definition AdminPayout_offline :: "payout_state \<Rightarrow> world \<Rightarrow> payout_state \<times> world" where
  "AdminPayout_offline s w =
     (if has_window w \<and> \<not> onLine w then
        (let cached = getFromIndexedDB w ''admin-payout-articles''
         in if has_articles cached then
              (s\<lparr>ap_articles := the (ce_articles (the cached))\<rparr>, w)
            else (s, w))
      else (s, w))"

definition AdminPayout_mount ::
  "article list \<Rightarrow> payout_state \<Rightarrow> world \<Rightarrow> payout_state \<times> world" where
  "AdminPayout_mount ssrArticles s w =
     (let (s1, w1) = AdminPayout_hydrate ssrArticles s w;
          (s2, w2) = AdminPayout_refresh s1 w1
      in AdminPayout_offline s2 w2)"

section \<open>Derived views\<close>

subsection \<open>Strings and dates of the platform\<close>

text \<open>
  A string is a list of code units below 256, read as the characters U+0000 to U+00FF.
  Among these \<^verbatim>\<open>toLowerCase\<close> changes the letters A to Z and the letters U+00C0 to U+00DE
  (the multiplication sign U+00D7 is no letter), each to the letter 32 places up; characters
  beyond U+00FF are outside the model.
\<close>

definition lower_char :: "char \<Rightarrow> char" where
  "lower_char c =
     (let n = (of_char c :: nat)
      in if (65 \<le> n \<and> n \<le> 90) \<or> (192 \<le> n \<and> n \<le> 222 \<and> n \<noteq> 215) then char_of (n + 32)
         else c)"

definition toLowerCase :: "string \<Rightarrow> string" where
  "toLowerCase s = map lower_char s"

fun startsWith :: "string \<Rightarrow> string \<Rightarrow> bool" where
  "startsWith s [] = True"
| "startsWith [] (c # cs) = False"
| "startsWith (d # ds) (c # cs) = (d = c \<and> startsWith ds cs)"

text \<open>\<^verbatim>\<open>s.includes(t)\<close>: \<open>t\<close> occurs in \<open>s\<close> at some position.\<close>

fun includes_str :: "string \<Rightarrow> string \<Rightarrow> bool" where
  "includes_str [] t = startsWith [] t"
| "includes_str (d # ds) t = (startsWith (d # ds) t \<or> includes_str ds t)"

text \<open>
  The time value of a \<^verbatim>\<open>Date\<close> is a number of milliseconds, or \<^verbatim>\<open>NaN\<close> for an invalid date
  (\<open>None\<close>). A comparison with \<^verbatim>\<open>NaN\<close> is false.
\<close>

definition date_ge :: "int option \<Rightarrow> int option \<Rightarrow> bool" where
  "date_ge a b = (case (a, b) of (Some x, Some y) \<Rightarrow> x \<ge> y | _ \<Rightarrow> False)"

definition date_le :: "int option \<Rightarrow> int option \<Rightarrow> bool" where
  "date_le a b = (case (a, b) of (Some x, Some y) \<Rightarrow> x \<le> y | _ \<Rightarrow> False)"

text \<open>
  The date-time string format of ECMAScript: \<^verbatim>\<open>YYYY-MM-DD\<close> (the value of a date input,
  read as midnight UTC) and \<^verbatim>\<open>YYYY-MM-DDTHH:mm:ss\<close>, optionally followed by \<^verbatim>\<open>.sss\<close>,
  with the zone \<^verbatim>\<open>Z\<close> or an offset \<^verbatim>\<open>+HH:mm\<close> or \<^verbatim>\<open>-HH:mm\<close> (the provider's \<^verbatim>\<open>publishedAt\<close>).
  A date-time without a zone is local time and is not modelled; it and every other string
  count as an invalid date here. The filter takes the parser as a parameter, so this one
  is used in examples only.
\<close>

text \<open>The length of a day in milliseconds, and the UTC day an instant falls on.\<close>

definition msPerDay :: int where
  "msPerDay = 86400000"

definition utc_day :: "int \<Rightarrow> int" where
  "utc_day t = t div msPerDay"

definition is_digit :: "char \<Rightarrow> bool" where
  "is_digit c = (let n = (of_char c :: nat) in 48 \<le> n \<and> n \<le> 57)"

definition number :: "string \<Rightarrow> int option" where
  "number cs =
     (if cs \<noteq> [] \<and> list_all is_digit cs
      then Some (foldl (\<lambda>n c. 10 * n + (int (of_char c) - 48)) 0 cs)
      else None)"

definition leap_year :: "int \<Rightarrow> bool" where
  "leap_year y = (y mod 4 = 0 \<and> (y mod 100 \<noteq> 0 \<or> y mod 400 = 0))"

definition days_in_month :: "int \<Rightarrow> int \<Rightarrow> int" where
  "days_in_month y m =
     (if m = 2 then (if leap_year y then 29 else 28)
      else if m = 4 \<or> m = 6 \<or> m = 9 \<or> m = 11 then 30 else 31)"

text \<open>Days from 1970-01-01 to the given day of the proleptic Gregorian calendar.\<close>

definition days_from_civil :: "int \<Rightarrow> int \<Rightarrow> int \<Rightarrow> int" where
  "days_from_civil y m d =
     (let y' = (if m \<le> 2 then y - 1 else y);
          era = y' div 400;
          yoe = y' - era * 400;
          doy = (153 * (if m > 2 then m - 3 else m + 9) + 2) div 5 + d - 1;
          doe = yoe * 365 + yoe div 4 - yoe div 100 + doy
      in era * 146097 + doe - 719468)"

definition iso_day :: "string \<Rightarrow> int option" where
  "iso_day s =
     (if length s = 10 \<and> s ! 4 = CHR ''-'' \<and> s ! 7 = CHR ''-'' then
        (case (number (take 4 s), number (take 2 (drop 5 s)), number (take 2 (drop 8 s))) of
           (Some y, Some m, Some d) \<Rightarrow>
             if 1 \<le> m \<and> m \<le> 12 \<and> 1 \<le> d \<and> d \<le> days_in_month y m
             then Some (days_from_civil y m d) else None
         | _ \<Rightarrow> None)
      else None)"

definition iso_time :: "string \<Rightarrow> int option" where
  "iso_time s =
     (if length s = 8 \<and> s ! 2 = CHR '':'' \<and> s ! 5 = CHR '':'' then
        (case (number (take 2 s), number (take 2 (drop 3 s)), number (take 2 (drop 6 s))) of
           (Some h, Some m, Some sec) \<Rightarrow>
             if h \<le> 23 \<and> m \<le> 59 \<and> sec \<le> 59
             then Some ((h * 60 + m) * 60 + sec) else None
         | _ \<Rightarrow> None)
      else None)"

text \<open>The offset of a zone designator in minutes.\<close>

definition iso_zone :: "string \<Rightarrow> int option" where
  "iso_zone z =
     (if z = ''Z'' then Some 0
      else if length z = 6 \<and> (z ! 0 = CHR ''+'' \<or> z ! 0 = CHR ''-'') \<and> z ! 3 = CHR '':'' then
        (case (number (take 2 (drop 1 z)), number (take 2 (drop 4 z))) of
           (Some h, Some m) \<Rightarrow>
             if h \<le> 23 \<and> m \<le> 59
             then Some ((if z ! 0 = CHR ''-'' then - 1 else 1) * (h * 60 + m)) else None
         | _ \<Rightarrow> None)
      else None)"

definition iso_Date :: "string \<Rightarrow> int option" where
  "iso_Date s =
     (if length s = 10 then map_option (\<lambda>d. d * msPerDay) (iso_day s)
      else if length s \<ge> 20 \<and> s ! 10 = CHR ''T'' then
        (let rest = drop 19 s;
             (ms, zone) =
               (if length rest \<ge> 5 \<and> rest ! 0 = CHR ''.''
                then (number (take 3 (drop 1 rest)), drop 4 rest)
                else (Some 0, rest))
         in case (iso_day (take 10 s), iso_time (take 8 (drop 11 s)), ms, iso_zone zone) of
              (Some d, Some t, Some f, Some off) \<Rightarrow>
                Some (d * msPerDay + t * 1000 + f - off * 60000)
            | _ \<Rightarrow> None)
      else None)"

subsection \<open>Filtering on the dashboard (\<^verbatim>\<open>filtered\<close> in \<^verbatim>\<open>Home\<close>)\<close>

text \<open>\<^verbatim>\<open>article.author || "Unknown"\<close>: \<^verbatim>\<open>null\<close> and the empty string are both falsy.\<close>

definition author_or_unknown :: "article \<Rightarrow> string" where
  "author_or_unknown a =
     (case author a of None \<Rightarrow> ''Unknown'' | Some s \<Rightarrow> if s = '''' then ''Unknown'' else s)"

text \<open>
  The callback of \<^verbatim>\<open>articlesToUse.filter\<close>. The constructor \<^verbatim>\<open>new Date(string)\<close> of the engine is
  the parameter \<open>newDate\<close>. \<^verbatim>\<open>description?.toLowerCase().includes(..)\<close> is \<^verbatim>\<open>undefined\<close>, hence
  falsy, when there is no description.
\<close>

definition passes_filters :: "(string \<Rightarrow> int option) \<Rightarrow> FiltersState \<Rightarrow> article \<Rightarrow> bool" where
  "passes_filters newDate filters article =
     (let matchesSearch =
            (includes_str (toLowerCase (title article)) (toLowerCase (searchTerm filters)) \<or>
             (case description article of
                None \<Rightarrow> False
              | Some d \<Rightarrow> includes_str (toLowerCase d) (toLowerCase (searchTerm filters))));
          matchesAuthor =
            (selectedAuthor filters = ''All'' \<or>
             author_or_unknown article = selectedAuthor filters);
          articleDate = newDate (publishedAt article);
          matchesStart =
            (if startDate filters \<noteq> '''' then date_ge articleDate (newDate (startDate filters))
             else True);
          matchesEnd =
            (if endDate filters \<noteq> '''' then date_le articleDate (newDate (endDate filters))
             else True)
      in matchesSearch \<and> matchesAuthor \<and> matchesStart \<and> matchesEnd)"

definition filtered ::
  "(string \<Rightarrow> int option) \<Rightarrow> FiltersState \<Rightarrow> article list \<Rightarrow> article list" where
  "filtered newDate filters articlesToUse = filter (passes_filters newDate filters) articlesToUse"

subsection \<open>The filtering predicate in the words of the specification\<close>

text \<open>
  A text contains a term case-insensitively when the term, letter case aside, occurs in it
  at some position.
\<close>

fun starts_with_ci :: "string \<Rightarrow> string \<Rightarrow> bool" where
  "starts_with_ci s [] = True"
| "starts_with_ci [] (c # cs) = False"
| "starts_with_ci (d # ds) (c # cs) = (lower_char d = lower_char c \<and> starts_with_ci ds cs)"

fun contains_ci :: "string \<Rightarrow> string \<Rightarrow> bool" where
  "contains_ci [] t = starts_with_ci [] t"
| "contains_ci (d # ds) t = (starts_with_ci (d # ds) t \<or> contains_ci ds t)"

text \<open>The author with an absent one named "Unknown".\<close>

definition absent_as_unknown :: "article \<Rightarrow> string" where
  "absent_as_unknown a = (case author a of None \<Rightarrow> ''Unknown'' | Some s \<Rightarrow> s)"

text \<open>The author with an absent or empty one named "Unknown".\<close>

definition absent_or_empty_as_unknown :: "article \<Rightarrow> string" where
  "absent_or_empty_as_unknown a =
     (if author a = None \<or> author a = Some '''' then ''Unknown'' else the (author a))"

text \<open>
  The bounds are dates, chosen in date inputs, and both are inclusive: a publication date
  is within them when its day is the start day or a later one, and the end day or an
  earlier one. An article is admitted when (a) its title or description contains the
  search term case-insensitively, (b) its author under the given naming equals the
  selected author or "All" is selected, and (c) its publication date is within each bound
  that is set.
\<close>

definition admits ::
  "(article \<Rightarrow> string) \<Rightarrow> (string \<Rightarrow> int option) \<Rightarrow> FiltersState \<Rightarrow> article \<Rightarrow> bool" where
  "admits author_name newDate f a =
     ((contains_ci (title a) (searchTerm f) \<or>
       (case description a of None \<Rightarrow> False | Some d \<Rightarrow> contains_ci d (searchTerm f))) \<and>
      (author_name a = selectedAuthor f \<or> selectedAuthor f = ''All'') \<and>
      (startDate f = '''' \<or>
       (case (newDate (publishedAt a), newDate (startDate f)) of
          (Some p, Some s) \<Rightarrow> utc_day s \<le> utc_day p | _ \<Rightarrow> False)) \<and>
      (endDate f = '''' \<or>
       (case (newDate (publishedAt a), newDate (endDate f)) of
          (Some p, Some e) \<Rightarrow> utc_day p \<le> utc_day e | _ \<Rightarrow> False)))"

text \<open>The start bound, when it is a date, is the first instant of its day.\<close>

definition start_at_midnight :: "(string \<Rightarrow> int option) \<Rightarrow> FiltersState \<Rightarrow> bool" where
  "start_at_midnight newDate f =
     (case newDate (startDate f) of None \<Rightarrow> True | Some s \<Rightarrow> s mod msPerDay = 0)"

text \<open>The article was published on the end day, after the instant of the end bound.\<close>

definition later_on_end_day :: "(string \<Rightarrow> int option) \<Rightarrow> FiltersState \<Rightarrow> article \<Rightarrow> bool" where
  "later_on_end_day newDate f a =
     (endDate f \<noteq> '''' \<and>
      (case (newDate (publishedAt a), newDate (endDate f)) of
         (Some p, Some e) \<Rightarrow> utc_day p = utc_day e \<and> e < p | _ \<Rightarrow> False))"

subsection \<open>Grouping and payout (\<^verbatim>\<open>AdminPayout\<close>)\<close>

definition filteredArticles :: "string \<Rightarrow> string \<Rightarrow> article list \<Rightarrow> article list" where
  "filteredArticles selAuthor selType articles =
     filter (\<lambda>a. (selAuthor = ''All'' \<or> author_or_unknown a = selAuthor) \<and>
                 (selType = ''All'' \<or> atype a = selType)) articles"

record group =
  g_author :: string
  g_type :: string
  g_count :: nat

text \<open>The key \<^verbatim>\<open>`${author}|||${type}`\<close>.\<close>

definition author_type_key :: "string \<Rightarrow> string \<Rightarrow> string" where
  "author_type_key a t = a @ ''|||'' @ t"

text \<open>
  The object \<^verbatim>\<open>map\<close> keeps its properties in the order of their creation, so it is an
  association list; \<open>AList.update\<close> appends a new key at the end. One round of the
  \<^verbatim>\<open>forEach\<close>:
\<close>

definition add_article :: "(string \<times> group) list \<Rightarrow> article \<Rightarrow> (string \<times> group) list" where
  "add_article m a =
     (let author = author_or_unknown a;
          key = author_type_key author (atype a);
          m1 = (if map_of m key = None
                then AList.update key \<lparr>g_author = author, g_type = atype a, g_count = 0\<rparr> m
                else m)
      in AList.map_entry key (\<lambda>g. g\<lparr>g_count := g_count g + 1\<rparr>) m1)"

definition grouped :: "article list \<Rightarrow> (string \<times> group) list" where
  "grouped articles = foldl add_article [] articles"

text \<open>
  A JavaScript number: \<^verbatim>\<open>NaN\<close>, an infinity, or a finite value. Finite values are taken as
  the rationals they denote and products are exact; rounding of doubles and the printing
  by \<^verbatim>\<open>toFixed(2)\<close> are left to the platform.
\<close>

datatype jsnum = NaN | NegInfinity | Fin rat | PosInfinity

definition isNaN :: "jsnum \<Rightarrow> bool" where
  "isNaN x = (x = NaN)"

text \<open>\<^verbatim>\<open>x >= 0\<close>.\<close>

definition ge_zero :: "jsnum \<Rightarrow> bool" where
  "ge_zero x =
     (case x of NaN \<Rightarrow> False | NegInfinity \<Rightarrow> False | Fin q \<Rightarrow> q \<ge> 0 | PosInfinity \<Rightarrow> True)"

definition js_sign :: "jsnum \<Rightarrow> int" where
  "js_sign x =
     (case x of NaN \<Rightarrow> 0 | NegInfinity \<Rightarrow> - 1
      | Fin q \<Rightarrow> (if q < 0 then - 1 else if q = 0 then 0 else 1) | PosInfinity \<Rightarrow> 1)"

definition js_times :: "jsnum \<Rightarrow> jsnum \<Rightarrow> jsnum" where
  "js_times x y =
     (case (x, y) of
        (NaN, _) \<Rightarrow> NaN
      | (_, NaN) \<Rightarrow> NaN
      | (Fin a, Fin b) \<Rightarrow> Fin (a * b)
      | _ \<Rightarrow> (let s = js_sign x * js_sign y
              in if s = 0 then NaN else if s > 0 then PosInfinity else NegInfinity))"

text \<open>\<^verbatim>\<open>payoutRates[key] ?? 2\<close>.\<close>

definition rate_or_default :: "(string \<rightharpoonup> jsnum) \<Rightarrow> string \<Rightarrow> jsnum" where
  "rate_or_default payoutRates key = (case payoutRates key of None \<Rightarrow> Fin 2 | Some r \<Rightarrow> r)"

text \<open>\<^verbatim>\<open>Number(value)\<close> of the engine is the parameter \<open>Number\<close>.\<close>

definition handleRateChange ::
  "(string \<Rightarrow> jsnum) \<Rightarrow> (string \<rightharpoonup> jsnum) \<Rightarrow> string \<Rightarrow> string \<Rightarrow> string \<Rightarrow> (string \<rightharpoonup> jsnum)"
  where
  "handleRateChange Number rates author' type v =
     (let key = author_type_key author' type;
          num = Number v
      in if \<not> isNaN num \<and> ge_zero num then rates(key \<mapsto> num) else rates)"

text \<open>
  A row of the table and of the three exports: author, type, count, rate and the number
  \<^verbatim>\<open>count * rate\<close>.
\<close>

record payout_row =
  row_author :: string
  row_type :: string
  row_count :: nat
  row_rate :: jsnum
  row_total :: jsnum

definition payout_rows :: "(string \<rightharpoonup> jsnum) \<Rightarrow> (string \<times> group) list \<Rightarrow> payout_row list" where
  "payout_rows payoutRates m =
     map (\<lambda>g. let key = author_type_key (g_author g) (g_type g);
                  rate = rate_or_default payoutRates key
              in \<lparr>row_author = g_author g, row_type = g_type g, row_count = g_count g,
                  row_rate = rate, row_total = js_times (Fin (of_nat (g_count g))) rate\<rparr>)
         (map snd m)"

text \<open>
  The rates after a sequence of edits \<open>(author, type, value)\<close> of rate cells, from the
  initial empty object.
\<close>

definition rates_after ::
  "(string \<Rightarrow> jsnum) \<Rightarrow> (string \<times> string \<times> string) list \<Rightarrow> (string \<rightharpoonup> jsnum)" where
  "rates_after Number edits =
     foldl (\<lambda>rates (author, type, v). handleRateChange Number rates author type v) Map.empty edits"

section \<open>Example inputs\<close>

text \<open>Cache entries of the two shapes.\<close>

definition pair_entry :: "article list \<Rightarrow> article list \<Rightarrow> int \<Rightarrow> cache_entry" where
  "pair_entry news blogs t =
     \<lparr>ce_articles = None, ce_news = Some news, ce_blogs = Some blogs, ce_timestamp = Some t\<rparr>"

definition flat_entry :: "article list \<Rightarrow> int \<Rightarrow> cache_entry" where
  "flat_entry articles t =
     \<lparr>ce_articles = Some articles, ce_news = None, ce_blogs = None, ce_timestamp = Some t\<rparr>"

text \<open>
  A browser that is online, with a given store, a clock that reads \<open>now\<close> and a given
  provider; and the server side, where there is no \<^verbatim>\<open>window\<close>.
\<close>

definition browser ::
  "(string \<rightharpoonup> cache_entry) \<Rightarrow> int \<Rightarrow> (endpoint \<Rightarrow> fetch_result) \<Rightarrow> world" where
  "browser store now provider =
     \<lparr>has_window = True, onLine = True, clock = (\<lambda>n. now), ticks = 0, net = provider,
      requests = [], db = store\<rparr>"

definition server :: "(endpoint \<Rightarrow> fetch_result) \<Rightarrow> world" where
  "server provider =
     \<lparr>has_window = False, onLine = False, clock = (\<lambda>n. 0), ticks = 0, net = provider,
      requests = [], db = Map.empty\<rparr>"

text \<open>
  Providers: one that answers every request with an empty list of articles, one that
  answers with one item, one that answers with an HTTP error status and a JSON error
  object, and one that cannot be reached.
\<close>

definition empty_provider :: "endpoint \<Rightarrow> fetch_result" where
  "empty_provider ep = Response True (Some (JsonValue (Items [])))"

definition fed_item :: raw_item where
  "fed_item =
     \<lparr>item_title = ''Fed raises rates'', item_description = None, item_url = '''',
      item_urlToImage = None, item_author = Some ''Jane'',
      item_publishedAt = ''2024-03-01T00:00:00Z'', item_source = None\<rparr>"

definition fed_provider :: "endpoint \<Rightarrow> fetch_result" where
  "fed_provider ep = Response True (Some (JsonValue (Items [fed_item])))"

definition error_status_provider :: "endpoint \<Rightarrow> fetch_result" where
  "error_status_provider ep = Response False (Some (JsonValue Missing))"

definition unreachable_provider :: "endpoint \<Rightarrow> fetch_result" where
  "unreachable_provider ep = Rejected"

text \<open>The article and the filters of the specification's filtering example.\<close>

definition fed_article :: article where
  "fed_article =
     \<lparr>title = ''Fed raises rates'', description = None, url = '''', urlToImage = None,
      author = Some ''Jane'', publishedAt = ''2024-03-01T00:00:00Z'', source = None,
      atype = ''news''\<rparr>"

definition fed_filters :: "string \<Rightarrow> FiltersState" where
  "fed_filters who =
     \<lparr>ftype = News, searchTerm = ''fed'', selectedAuthor = who, startDate = ''2024-02-01'',
      endDate = ''2024-04-01''\<rparr>"

text \<open>The articles of the specification's grouping example.\<close>

definition jane :: "string \<Rightarrow> article" where
  "jane type =
     \<lparr>title = '''', description = None, url = '''', urlToImage = None, author = Some ''Jane'',
      publishedAt = '''', source = None, atype = type\<rparr>"

text \<open>The key under which \<^verbatim>\<open>grouped\<close> counts an article.\<close>

definition article_key :: "article \<Rightarrow> string" where
  "article_key a = author_type_key (author_or_unknown a) (atype a)"

text \<open>A store with an entry under every key the application uses, written at time 0.\<close>

definition full_store :: "string \<rightharpoonup> cache_entry" where
  "full_store =
     [''newsapi_news'' \<mapsto> flat_entry [fed_article] 0,
      ''newsapi_news_blogs'' \<mapsto> pair_entry [fed_article] [] 0,
      ''admin-payout-articles'' \<mapsto> flat_entry [fed_article] 0]"

text \<open>
  The values of \<^verbatim>\<open>Number\<close> on the three inputs of a rate cell that the examples use:
  "3", "-1" and "abc", which is no number. It stands for \<^verbatim>\<open>Number\<close> on these inputs only.
\<close>

definition example_Number :: "string \<Rightarrow> jsnum" where
  "example_Number v =
     (if v = ''3'' then Fin 3 else if v = ''-1'' then Fin (- 1) else NaN)"

section \<open>Theorems\<close>

text \<open>
  C6. Whatever the filter state was, \<open>setType t\<close> gives the state with type \<open>t\<close>, author
  selection "All" and empty search term, start date and end date.
\<close>

theorem setType_resets:
  "setType state t =
     \<lparr>ftype = t, searchTerm = '''', selectedAuthor = ''All'', startDate = '''', endDate = ''''\<rparr>"
  by (simp add: setType_def Let_def)

subsection \<open>The fetcher\<close>

lemma fetchNews_fresh:
  "has_window w \<Longrightarrow> db w ''newsapi_news'' = Some c \<Longrightarrow> ce_timestamp c = Some t \<Longrightarrow>
   clock w (ticks w) - t < 3600000 \<Longrightarrow>
   fetchNews w = (Inr (ce_articles c), w\<lparr>ticks := Suc (ticks w)\<rparr>)"
  by (simp add: fetchNews_def getFromIndexedDB_def Date_now_def within_hour_def)

lemma fetchNews_stale:
  "has_window w \<Longrightarrow> db w ''newsapi_news'' = Some c \<Longrightarrow> ce_timestamp c = Some t \<Longrightarrow>
   3600000 \<le> clock w (ticks w) - t \<Longrightarrow>
   requests (snd (fetchNews w)) = requests w @ [TopHeadlines]"
  by (simp add: fetchNews_def getFromIndexedDB_def Date_now_def within_hour_def fetch_def
      saveToIndexedDB_def split: fetch_result.splits sum.splits)

lemma fetchNewsAndBlogs_fresh:
  "has_window w \<Longrightarrow> db w ''newsapi_news_blogs'' = Some c \<Longrightarrow> ce_timestamp c = Some t \<Longrightarrow>
   clock w (ticks w) - t < 3600000 \<Longrightarrow>
   fetchNewsAndBlogs w = (Inr (ce_news c, ce_blogs c), w\<lparr>ticks := Suc (ticks w)\<rparr>)"
  by (simp add: fetchNewsAndBlogs_def getFromIndexedDB_def Date_now_def within_hour_def)

lemma fetchNewsAndBlogs_stale:
  "has_window w \<Longrightarrow> db w ''newsapi_news_blogs'' = Some c \<Longrightarrow> ce_timestamp c = Some t \<Longrightarrow>
   3600000 \<le> clock w (ticks w) - t \<Longrightarrow>
   requests (snd (fetchNewsAndBlogs w)) = requests w @ [Technology] \<or>
   requests (snd (fetchNewsAndBlogs w)) = requests w @ [Technology, General]"
  by (simp add: fetchNewsAndBlogs_def getFromIndexedDB_def Date_now_def within_hour_def
      fetch_def saveToIndexedDB_def split: fetch_result.splits sum.splits)

text \<open>The single-category path does test the status of the response.\<close>

lemma fetchNews_error_status:
  "\<not> has_window w \<Longrightarrow> net w TopHeadlines = Response False body \<Longrightarrow>
   fetchNews w = (Inl FailedToFetch, w\<lparr>requests := requests w @ [TopHeadlines]\<rparr>)"
  by (simp add: fetchNews_def fetch_def)

text \<open>
  The dual-category path has no branch that fails for the status of a response: it never
  ends with the error that \<open>fetchNews\<close> throws for one.
\<close>

lemma fetchNewsAndBlogs_never_FailedToFetch: "fst (fetchNewsAndBlogs w) \<noteq> Inl FailedToFetch"
  by (simp add: fetchNewsAndBlogs_def getFromIndexedDB_def Date_now_def fetch_def res_json_def
      map_articles_def saveToIndexedDB_def Let_def
      split: fetch_result.splits sum.splits option.splits prod.splits json.splits
        articles_field.splits)

lemma map_articles_type:
  "map_articles data (\<lambda>item. mapArticle item ty) = Inr as \<Longrightarrow> \<forall>a\<in>set as. atype a = ty"
  by (auto simp add: map_articles_def mapArticle_def split: json.splits articles_field.splits)

lemma fetchNews_mapped:
  "fetchNews w = (Inr r, w') \<Longrightarrow> requests w' \<noteq> requests w \<Longrightarrow>
   \<exists>as. r = Some as \<and> (\<forall>a\<in>set as. atype a = ''news'')"
  by (auto simp add: fetchNews_def getFromIndexedDB_def Date_now_def fetch_def
      saveToIndexedDB_def Let_def dest!: map_articles_type
      split: fetch_result.splits sum.splits option.splits if_splits)

lemma fetchNewsAndBlogs_mapped:
  "fetchNewsAndBlogs w = (Inr (rn, rb), w') \<Longrightarrow> requests w' \<noteq> requests w \<Longrightarrow>
   \<exists>ns bs. rn = Some ns \<and> rb = Some bs \<and> (\<forall>a\<in>set ns. atype a = ''news'') \<and>
     (\<forall>a\<in>set bs. atype a = ''blogs'')"
  by (auto simp add: fetchNewsAndBlogs_def getFromIndexedDB_def Date_now_def fetch_def
      saveToIndexedDB_def Let_def dest!: map_articles_type
      split: fetch_result.splits sum.splits option.splits if_splits)

lemmas example_worlds = browser_def server_def full_store_def
  pair_entry_def flat_entry_def empty_provider_def fed_provider_def
  error_status_provider_def unreachable_provider_def

lemmas fetcher_steps = getFromIndexedDB_def Date_now_def within_hour_def fetch_def
  res_json_def map_articles_def saveToIndexedDB_def

text \<open>
  C1, as amended. Both fetch paths enforce the one-hour window. In a browser, with an entry
  under its key that carries a timestamp: \<open>fetchNews\<close> returns the cached articles and
  issues no request when the entry is younger than an hour, and requests the headlines
  when it is one hour old or older; \<open>fetchNewsAndBlogs\<close> returns the cached pair and
  issues no request when the entry is younger than an hour, and requests the technology
  headlines (and then the general ones) when it is one hour old or older.
\<close>

theorem freshness_window_both_paths:
  "(has_window w \<and> db w ''newsapi_news'' = Some c \<and> ce_timestamp c = Some t \<and>
      clock w (ticks w) - t < 60 * 60 * 1000 \<longrightarrow>
    fst (fetchNews w) = Inr (ce_articles c) \<and> requests (snd (fetchNews w)) = requests w) \<and>
   (has_window w' \<and> db w' ''newsapi_news'' = Some c' \<and> ce_timestamp c' = Some t' \<and>
      60 * 60 * 1000 \<le> clock w' (ticks w') - t' \<longrightarrow>
    requests (snd (fetchNews w')) = requests w' @ [TopHeadlines]) \<and>
   (has_window w \<and> db w ''newsapi_news_blogs'' = Some d \<and> ce_timestamp d = Some u \<and>
      clock w (ticks w) - u < 60 * 60 * 1000 \<longrightarrow>
    fst (fetchNewsAndBlogs w) = Inr (ce_news d, ce_blogs d) \<and>
    requests (snd (fetchNewsAndBlogs w)) = requests w) \<and>
   (has_window w' \<and> db w' ''newsapi_news_blogs'' = Some d' \<and> ce_timestamp d' = Some u' \<and>
      60 * 60 * 1000 \<le> clock w' (ticks w') - u' \<longrightarrow>
    requests (snd (fetchNewsAndBlogs w')) = requests w' @ [Technology] \<or>
    requests (snd (fetchNewsAndBlogs w')) = requests w' @ [Technology, General])"
proof (intro conjI impI)
  assume "has_window w \<and> db w ''newsapi_news'' = Some c \<and> ce_timestamp c = Some t \<and>
      clock w (ticks w) - t < 60 * 60 * 1000"
  then have "fetchNews w = (Inr (ce_articles c), w\<lparr>ticks := Suc (ticks w)\<rparr>)"
    by (simp add: fetchNews_fresh)
  then show "fst (fetchNews w) = Inr (ce_articles c)"
    and "requests (snd (fetchNews w)) = requests w" by simp_all
next
  assume "has_window w' \<and> db w' ''newsapi_news'' = Some c' \<and> ce_timestamp c' = Some t' \<and>
      60 * 60 * 1000 \<le> clock w' (ticks w') - t'"
  then show "requests (snd (fetchNews w')) = requests w' @ [TopHeadlines]"
    by (simp add: fetchNews_stale)
next
  assume "has_window w \<and> db w ''newsapi_news_blogs'' = Some d \<and> ce_timestamp d = Some u \<and>
      clock w (ticks w) - u < 60 * 60 * 1000"
  then have "fetchNewsAndBlogs w = (Inr (ce_news d, ce_blogs d), w\<lparr>ticks := Suc (ticks w)\<rparr>)"
    by (simp add: fetchNewsAndBlogs_fresh)
  then show "fst (fetchNewsAndBlogs w) = Inr (ce_news d, ce_blogs d)"
    and "requests (snd (fetchNewsAndBlogs w)) = requests w" by simp_all
next
  assume "has_window w' \<and> db w' ''newsapi_news_blogs'' = Some d' \<and> ce_timestamp d' = Some u' \<and>
      60 * 60 * 1000 \<le> clock w' (ticks w') - u'"
  then show "requests (snd (fetchNewsAndBlogs w')) = requests w' @ [Technology] \<or>
    requests (snd (fetchNewsAndBlogs w')) = requests w' @ [Technology, General]"
    using fetchNewsAndBlogs_stale [of w' d' u'] by simp
qed

theorem freshness_window_witness:
  "fst (fetchNews (browser full_store 3599999 empty_provider)) = Inr (Some [fed_article]) \<and>
   requests (snd (fetchNews (browser full_store 3599999 empty_provider))) = [] \<and>
   requests (snd (fetchNews (browser full_store 3600000 empty_provider))) = [TopHeadlines] \<and>
   fst (fetchNewsAndBlogs (browser full_store 3599999 empty_provider)) =
     Inr (Some [fed_article], Some []) \<and>
   requests (snd (fetchNewsAndBlogs (browser full_store 3599999 empty_provider))) = [] \<and>
   (requests (snd (fetchNewsAndBlogs (browser full_store 3600000 empty_provider))) =
      [Technology] \<or>
    requests (snd (fetchNewsAndBlogs (browser full_store 3600000 empty_provider))) =
      [Technology, General])"
  using freshness_window_both_paths
    [of "browser full_store 3599999 empty_provider" "flat_entry [fed_article] 0" 0
        "browser full_store 3600000 empty_provider" "flat_entry [fed_article] 0" 0
        "pair_entry [fed_article] [] 0" 0 "pair_entry [fed_article] [] 0" 0]
  by (simp add: browser_def full_store_def pair_entry_def flat_entry_def)

text \<open>
  C1, as stated, fails for the dual-category path: with the same cached pair in the store,
  \<open>fetchNewsAndBlogs\<close> returns it without a request when the clock reads 3599999 ms after
  the timestamp, and goes to the provider, returning the provider's (empty) lists, when
  the clock reads 3600000 ms after it.
\<close>

theorem fetchNewsAndBlogs_consults_timestamp:
  "db (browser full_store 3600000 empty_provider) ''newsapi_news_blogs'' =
     Some (pair_entry [fed_article] [] 0) \<and>
   fst (fetchNewsAndBlogs (browser full_store 3599999 empty_provider)) =
     Inr (Some [fed_article], Some []) \<and>
   requests (snd (fetchNewsAndBlogs (browser full_store 3599999 empty_provider))) = [] \<and>
   fst (fetchNewsAndBlogs (browser full_store 3600000 empty_provider)) =
     Inr (Some [], Some []) \<and>
   requests (snd (fetchNewsAndBlogs (browser full_store 3600000 empty_provider))) =
     [Technology, General]"
  by (simp add: fetchNewsAndBlogs_def fetcher_steps example_worlds)

text \<open>
  C2 fails on the dual-category path. On the server, with a provider that answers both
  requests with an error status and a JSON error object, \<open>fetchNewsAndBlogs\<close> does not fail:
  it returns two empty lists, after one request per category.
\<close>

theorem fetchNewsAndBlogs_ignores_error_status:
  "fetchNewsAndBlogs (server error_status_provider) =
     (Inr (Some [], Some []),
      (server error_status_provider)\<lparr>requests := [Technology, General]\<rparr>)"
  by (simp add: fetchNewsAndBlogs_def fetcher_steps example_worlds)

text \<open>
  C7. A batch that a fetcher produced from the provider's answer, that is, a successful
  result of a call that issued a request: every article of \<open>fetchNews\<close> has type "news",
  every article of the first list of \<open>fetchNewsAndBlogs\<close> has type "news" and every article
  of its second list has type "blogs"; so the type is one of the two and never empty.
\<close>

theorem mapped_articles_typed:
  "(fetchNews w = (Inr r, w1) \<and> requests w1 \<noteq> requests w \<longrightarrow>
      (\<exists>as. r = Some as \<and> (\<forall>a\<in>set as. atype a = ''news'' \<and> atype a \<noteq> ''''))) \<and>
   (fetchNewsAndBlogs w' = (Inr (rn, rb), w2) \<and> requests w2 \<noteq> requests w' \<longrightarrow>
      (\<exists>ns bs. rn = Some ns \<and> rb = Some bs \<and>
         (\<forall>a\<in>set ns. atype a = ''news'' \<and> atype a \<noteq> '''') \<and>
         (\<forall>a\<in>set bs. atype a = ''blogs'' \<and> atype a \<noteq> '''')))"
proof (intro conjI impI)
  assume "fetchNews w = (Inr r, w1) \<and> requests w1 \<noteq> requests w"
  then obtain as where "r = Some as" "\<forall>a\<in>set as. atype a = ''news''"
    using fetchNews_mapped [of w r w1] by blast
  then show "\<exists>as. r = Some as \<and> (\<forall>a\<in>set as. atype a = ''news'' \<and> atype a \<noteq> '''')"
    by simp
next
  assume "fetchNewsAndBlogs w' = (Inr (rn, rb), w2) \<and> requests w2 \<noteq> requests w'"
  then obtain ns bs where "rn = Some ns" "rb = Some bs" "\<forall>a\<in>set ns. atype a = ''news''"
    "\<forall>a\<in>set bs. atype a = ''blogs''"
    using fetchNewsAndBlogs_mapped [of w' rn rb w2] by blast
  then show "\<exists>ns bs. rn = Some ns \<and> rb = Some bs \<and>
         (\<forall>a\<in>set ns. atype a = ''news'' \<and> atype a \<noteq> '''') \<and>
         (\<forall>a\<in>set bs. atype a = ''blogs'' \<and> atype a \<noteq> '''')"
    by simp
qed

theorem mapped_articles_typed_witness:
  "fetchNews (server fed_provider) =
     (Inr (Some [fed_article]), (server fed_provider)\<lparr>requests := [TopHeadlines]\<rparr>) \<and>
   fetchNewsAndBlogs (server fed_provider) =
     (Inr (Some [fed_article], Some [fed_article\<lparr>atype := ''blogs''\<rparr>]),
      (server fed_provider)\<lparr>requests := [Technology, General]\<rparr>) \<and>
   atype fed_article = ''news'' \<and> atype fed_article \<noteq> '''' \<and>
   atype (fed_article\<lparr>atype := ''blogs''\<rparr>) = ''blogs'' \<and>
   atype (fed_article\<lparr>atype := ''blogs''\<rparr>) \<noteq> ''''"
proof -
  have n: "fetchNews (server fed_provider) =
     (Inr (Some [fed_article]), (server fed_provider)\<lparr>requests := [TopHeadlines]\<rparr>)"
    by (simp add: fetchNews_def fetcher_steps example_worlds mapArticle_def fed_item_def
        fed_article_def)
  have b: "fetchNewsAndBlogs (server fed_provider) =
     (Inr (Some [fed_article], Some [fed_article\<lparr>atype := ''blogs''\<rparr>]),
      (server fed_provider)\<lparr>requests := [Technology, General]\<rparr>)"
    by (simp add: fetchNewsAndBlogs_def fetcher_steps example_worlds mapArticle_def
        fed_item_def fed_article_def)
  show ?thesis
    using n b mapped_articles_typed
      [of "server fed_provider" "Some [fed_article]"
          "(server fed_provider)\<lparr>requests := [TopHeadlines]\<rparr>"
          "server fed_provider" "Some [fed_article]" "Some [fed_article\<lparr>atype := ''blogs''\<rparr>]"
          "(server fed_provider)\<lparr>requests := [Technology, General]\<rparr>"]
    by (simp add: server_def)
qed


subsection \<open>The pages\<close>

lemma Home_hydrate_cached:
  "has_window w \<Longrightarrow> db w ''newsapi_news_blogs'' = Some c \<Longrightarrow> ce_news c = Some n \<Longrightarrow>
   ce_blogs c = Some b \<Longrightarrow>
   Home_hydrate ssrNews ssrBlogs s w =
     (s\<lparr>hs_news := Some n, hs_blogs := Some b,
        hs_offlineArticles := Some (Some n, Some b)\<rparr>, w)"
  by (simp add: Home_hydrate_def getFromIndexedDB_def has_news_blogs_def)

lemma Home_hydrate_uncached:
  "has_window w \<Longrightarrow> \<not> has_news_blogs (db w ''newsapi_news_blogs'') \<Longrightarrow>
   Home_hydrate ssrNews ssrBlogs s w =
     (s\<lparr>hs_news := Some ssrNews, hs_blogs := Some ssrBlogs, hs_offlineArticles := None\<rparr>,
      w\<lparr>ticks := Suc (ticks w),
        db := (db w)(''newsapi_news_blogs'' \<mapsto>
                pair_entry ssrNews ssrBlogs (clock w (ticks w)))\<rparr>)"
  by (simp add: Home_hydrate_def getFromIndexedDB_def Date_now_def saveToIndexedDB_def
      pair_entry_def)

lemma NewsAnalytics_hydrate_cached:
  "has_window w \<Longrightarrow> db w ''newsapi_news_blogs'' = Some c \<Longrightarrow> ce_news c = Some n \<Longrightarrow>
   ce_blogs c = Some b \<Longrightarrow>
   NewsAnalytics_hydrate ssrNews ssrBlogs s w = (s\<lparr>na_news := Some n, na_blogs := Some b\<rparr>, w)"
  by (simp add: NewsAnalytics_hydrate_def getFromIndexedDB_def has_news_blogs_def)

lemma NewsAnalytics_hydrate_uncached:
  "has_window w \<Longrightarrow> \<not> has_news_blogs (db w ''newsapi_news_blogs'') \<Longrightarrow>
   NewsAnalytics_hydrate ssrNews ssrBlogs s w =
     (s\<lparr>na_news := Some ssrNews, na_blogs := Some ssrBlogs\<rparr>,
      w\<lparr>ticks := Suc (ticks w),
        db := (db w)(''newsapi_news_blogs'' \<mapsto>
                pair_entry ssrNews ssrBlogs (clock w (ticks w)))\<rparr>)"
  by (simp add: NewsAnalytics_hydrate_def getFromIndexedDB_def Date_now_def
      saveToIndexedDB_def pair_entry_def)

lemma AdminPayout_hydrate_cached:
  "has_window w \<Longrightarrow> db w ''admin-payout-articles'' = Some c \<Longrightarrow> ce_articles c = Some as \<Longrightarrow>
   as \<noteq> [] \<Longrightarrow>
   AdminPayout_hydrate ssrArticles s w = (s\<lparr>ap_articles := as\<rparr>, w)"
  by (simp add: AdminPayout_hydrate_def getFromIndexedDB_def has_articles_def)

lemma AdminPayout_hydrate_uncached:
  "has_window w \<Longrightarrow> \<not> has_articles (db w ''admin-payout-articles'') \<Longrightarrow>
   AdminPayout_hydrate ssrArticles s w =
     (s\<lparr>ap_articles := ssrArticles\<rparr>,
      w\<lparr>ticks := Suc (ticks w),
        db := (db w)(''admin-payout-articles'' \<mapsto>
                flat_entry ssrArticles (clock w (ticks w)))\<rparr>)"
  by (simp add: AdminPayout_hydrate_def getFromIndexedDB_def Date_now_def
      saveToIndexedDB_def flat_entry_def)

lemma Home_mount_cached:
  "has_window w \<Longrightarrow> db w ''newsapi_news_blogs'' = Some c \<Longrightarrow> ce_news c = Some n \<Longrightarrow>
   ce_blogs c = Some b \<Longrightarrow>
   Home_mount ssrNews ssrBlogs s w =
     Inr (s\<lparr>hs_news := Some n, hs_blogs := Some b,
            hs_offlineArticles := Some (Some n, Some b)\<rparr>, w)"
  by (simp add: Home_mount_def Home_hydrate_cached Home_refresh_def Home_offline_def
      Home_emptyFallback_def has_news_blogs_def getFromIndexedDB_def)

text \<open>
  With an entry of both lists in the store no effect of the two pages writes to the world,
  whatever the component state is, so the order in which the effects run does not matter.
\<close>

lemma Home_effects_read_only:
  assumes "has_news_blogs (db w ''newsapi_news_blogs'')"
  shows "snd (Home_hydrate ssrNews ssrBlogs s w) = w"
    and "snd (Home_refresh s w) = w"
    and "snd (Home_offline s w) = w"
    and "Home_emptyFallback s w = Inr (s', w') \<Longrightarrow> w' = w"
  using assms
  by (auto simp add: Home_hydrate_def Home_refresh_def Home_offline_def Home_emptyFallback_def
      getFromIndexedDB_def Let_def split: option.splits if_splits)

lemma NewsAnalytics_effects_read_only:
  assumes "has_news_blogs (db w ''newsapi_news_blogs'')"
  shows "snd (NewsAnalytics_hydrate ssrNews ssrBlogs s w) = w"
    and "snd (NewsAnalytics_refresh s w) = w"
    and "snd (NewsAnalytics_offline s w) = w"
  using assms
  by (auto simp add: NewsAnalytics_hydrate_def NewsAnalytics_refresh_def
      NewsAnalytics_offline_def getFromIndexedDB_def Let_def)

lemma NewsAnalytics_mount_cached:
  "has_window w \<Longrightarrow> db w ''newsapi_news_blogs'' = Some c \<Longrightarrow> ce_news c = Some n \<Longrightarrow>
   ce_blogs c = Some b \<Longrightarrow>
   NewsAnalytics_mount ssrNews ssrBlogs s w = (s\<lparr>na_news := Some n, na_blogs := Some b\<rparr>, w)"
  by (simp add: NewsAnalytics_mount_def NewsAnalytics_hydrate_cached NewsAnalytics_refresh_def
      NewsAnalytics_offline_def has_news_blogs_def getFromIndexedDB_def)

text \<open>
  The hydration of the payout page leaves the connectivity, the provider, the requests and
  the entries under every other key as they are.
\<close>

lemma AdminPayout_hydrate_world:
  "has_window (snd (AdminPayout_hydrate ssr s w)) = has_window w \<and>
   onLine (snd (AdminPayout_hydrate ssr s w)) = onLine w \<and>
   requests (snd (AdminPayout_hydrate ssr s w)) = requests w \<and>
   db (snd (AdminPayout_hydrate ssr s w)) ''newsapi_news_blogs'' = db w ''newsapi_news_blogs''"
  by (simp add: AdminPayout_hydrate_def Date_now_def saveToIndexedDB_def Let_def)

lemma AdminPayout_refresh_requests:
  "has_window w \<Longrightarrow> onLine w \<Longrightarrow>
   requests (snd (AdminPayout_refresh s w)) = requests (snd (fetchNewsAndBlogs w))"
  by (simp add: AdminPayout_refresh_def Date_now_def saveToIndexedDB_def Let_def
      split: prod.splits sum.splits option.splits)

lemma AdminPayout_refresh_online:
  "onLine (snd (AdminPayout_refresh s w)) = onLine w"
  by (simp add: AdminPayout_refresh_def fetchNewsAndBlogs_def getFromIndexedDB_def
      Date_now_def fetch_def saveToIndexedDB_def Let_def
      split: prod.splits sum.splits option.splits fetch_result.splits)

lemma AdminPayout_offline_online: "onLine w \<Longrightarrow> AdminPayout_offline s w = (s, w)"
  by (simp add: AdminPayout_offline_def)

lemma AdminPayout_mount_requests:
  assumes "has_window w" "onLine w"
  shows "requests (snd (AdminPayout_mount ssr s w)) =
         requests (snd (fetchNewsAndBlogs (snd (AdminPayout_hydrate ssr s w))))"
proof -
  obtain s1 w1 where h: "AdminPayout_hydrate ssr s w = (s1, w1)" by (cases "AdminPayout_hydrate ssr s w")
  obtain s2 w2 where r: "AdminPayout_refresh s1 w1 = (s2, w2)" by (cases "AdminPayout_refresh s1 w1")
  have w1: "has_window w1" "onLine w1"
    using AdminPayout_hydrate_world [of ssr s w] h assms by simp_all
  have "onLine w2" using AdminPayout_refresh_online [of s1 w1] r w1 by simp
  then have "AdminPayout_mount ssr s w = (s2, w2)"
    by (simp add: AdminPayout_mount_def h r AdminPayout_offline_online)
  moreover have "requests w2 = requests (snd (fetchNewsAndBlogs w1))"
    using AdminPayout_refresh_requests [OF w1, of s1] r by simp
  ultimately show ?thesis by (simp add: h)
qed

lemma Home_refresh_failure:
  "has_window w \<Longrightarrow> onLine w \<Longrightarrow> \<not> has_news_blogs (db w ''newsapi_news_blogs'') \<Longrightarrow>
   fst (fetchNewsAndBlogs w) = Inl e \<Longrightarrow> fst (Home_refresh s w) = s\<lparr>hs_apiError := True\<rparr>"
  by (cases "fetchNewsAndBlogs w") (simp add: Home_refresh_def getFromIndexedDB_def)

lemma NewsAnalytics_refresh_failure:
  "fst (fetchNewsAndBlogs w) = Inl e \<Longrightarrow> fst (NewsAnalytics_refresh s w) = s"
  by (cases "fetchNewsAndBlogs w") (simp add: NewsAnalytics_refresh_def getFromIndexedDB_def)

lemma AdminPayout_refresh_failure:
  "fst (fetchNewsAndBlogs w) = Inl e \<Longrightarrow> fst (AdminPayout_refresh s w) = s"
  by (cases "fetchNewsAndBlogs w") (simp add: AdminPayout_refresh_def)

lemma unreachable_fails:
  "fetchNewsAndBlogs (browser Map.empty now unreachable_provider) =
     (Inl NetworkError, (browser Map.empty now unreachable_provider)\<lparr>requests := [Technology]\<rparr>)"
  by (simp add: fetchNewsAndBlogs_def fetcher_steps example_worlds)

text \<open>
  C3. Hydration in a browser. When the store holds an entry with both lists under
  "newsapi_news_blogs", the dashboard and the analytics page adopt the cached lists (the
  dashboard also as its offline snapshot) and leave the world as it is; when it holds a
  non-empty list under "admin-payout-articles", the payout page adopts it. Neither the
  timestamp of the entry nor the clock is looked at. Otherwise each page adopts the
  server-rendered batch and stores it under its key with the current reading of the clock.
\<close>

theorem hydration_adopts_cache_or_ssr:
  "(has_window w \<and> db w ''newsapi_news_blogs'' = Some c \<and> ce_news c = Some n \<and>
      ce_blogs c = Some b \<longrightarrow>
    Home_hydrate ssrNews ssrBlogs hs w =
      (hs\<lparr>hs_news := Some n, hs_blogs := Some b,
          hs_offlineArticles := Some (Some n, Some b)\<rparr>, w) \<and>
    NewsAnalytics_hydrate ssrNews ssrBlogs ns w =
      (ns\<lparr>na_news := Some n, na_blogs := Some b\<rparr>, w)) \<and>
   (has_window w \<and> db w ''admin-payout-articles'' = Some d \<and> ce_articles d = Some as \<and>
      as \<noteq> [] \<longrightarrow>
    AdminPayout_hydrate ssrArticles ps w = (ps\<lparr>ap_articles := as\<rparr>, w)) \<and>
   (has_window w' \<and> \<not> has_news_blogs (db w' ''newsapi_news_blogs'') \<longrightarrow>
    Home_hydrate ssrNews ssrBlogs hs w' =
      (hs\<lparr>hs_news := Some ssrNews, hs_blogs := Some ssrBlogs, hs_offlineArticles := None\<rparr>,
       w'\<lparr>ticks := Suc (ticks w'),
          db := (db w')(''newsapi_news_blogs'' \<mapsto>
                  pair_entry ssrNews ssrBlogs (clock w' (ticks w')))\<rparr>) \<and>
    NewsAnalytics_hydrate ssrNews ssrBlogs ns w' =
      (ns\<lparr>na_news := Some ssrNews, na_blogs := Some ssrBlogs\<rparr>,
       w'\<lparr>ticks := Suc (ticks w'),
          db := (db w')(''newsapi_news_blogs'' \<mapsto>
                  pair_entry ssrNews ssrBlogs (clock w' (ticks w')))\<rparr>)) \<and>
   (has_window w' \<and> \<not> has_articles (db w' ''admin-payout-articles'') \<longrightarrow>
    AdminPayout_hydrate ssrArticles ps w' =
      (ps\<lparr>ap_articles := ssrArticles\<rparr>,
       w'\<lparr>ticks := Suc (ticks w'),
          db := (db w')(''admin-payout-articles'' \<mapsto>
                  flat_entry ssrArticles (clock w' (ticks w')))\<rparr>))"
  by (simp add: Home_hydrate_cached Home_hydrate_uncached NewsAnalytics_hydrate_cached
      NewsAnalytics_hydrate_uncached AdminPayout_hydrate_cached AdminPayout_hydrate_uncached)

theorem hydration_adopts_cache_or_ssr_witness:
  "Home_hydrate [] [] (Home_init [] []) (browser full_store 7200000 empty_provider) =
     (\<lparr>hs_news = Some [fed_article], hs_blogs = Some [], hs_apiError = False,
       hs_offlineArticles = Some (Some [fed_article], Some [])\<rparr>,
      browser full_store 7200000 empty_provider) \<and>
   NewsAnalytics_hydrate [] [] \<lparr>na_news = Some [], na_blogs = Some []\<rparr>
       (browser full_store 7200000 empty_provider) =
     (\<lparr>na_news = Some [fed_article], na_blogs = Some []\<rparr>,
      browser full_store 7200000 empty_provider) \<and>
   AdminPayout_hydrate [] \<lparr>ap_articles = []\<rparr> (browser full_store 7200000 empty_provider) =
     (\<lparr>ap_articles = [fed_article]\<rparr>, browser full_store 7200000 empty_provider) \<and>
   Home_hydrate [] [] (Home_init [] []) (browser Map.empty 5 empty_provider) =
     (Home_init [] [],
      (browser Map.empty 5 empty_provider)
        \<lparr>ticks := 1, db := [''newsapi_news_blogs'' \<mapsto> pair_entry [] [] 5]\<rparr>) \<and>
   NewsAnalytics_hydrate [] [] \<lparr>na_news = Some [], na_blogs = Some []\<rparr>
       (browser Map.empty 5 empty_provider) =
     (\<lparr>na_news = Some [], na_blogs = Some []\<rparr>,
      (browser Map.empty 5 empty_provider)
        \<lparr>ticks := 1, db := [''newsapi_news_blogs'' \<mapsto> pair_entry [] [] 5]\<rparr>) \<and>
   AdminPayout_hydrate [] \<lparr>ap_articles = []\<rparr> (browser Map.empty 5 empty_provider) =
     (\<lparr>ap_articles = []\<rparr>,
      (browser Map.empty 5 empty_provider)
        \<lparr>ticks := 1, db := [''admin-payout-articles'' \<mapsto> flat_entry [] 5]\<rparr>)"
  using hydration_adopts_cache_or_ssr
    [where w = "browser full_store 7200000 empty_provider"
       and c = "pair_entry [fed_article] [] 0" and n = "[fed_article]" and b = "[]"
       and d = "flat_entry [fed_article] 0" and as = "[fed_article]"
       and w' = "browser Map.empty 5 empty_provider"
       and ssrNews = "[]" and ssrBlogs = "[]" and ssrArticles = "[]"
       and hs = "Home_init [] []" and ns = "\<lparr>na_news = Some [], na_blogs = Some []\<rparr>"
       and ps = "\<lparr>ap_articles = []\<rparr>"]
  by (simp add: browser_def full_store_def pair_entry_def flat_entry_def Home_init_def
      has_news_blogs_def has_articles_def)

text \<open>
  C4, as amended. On the dashboard and on the analytics page: when the store holds an entry
  with both lists under "newsapi_news_blogs" at page load, the mount effects adopt the
  cached lists and leave the world as it was, so no request is issued and nothing is
  written, whatever \<^verbatim>\<open>navigator.onLine\<close> says and however old the entry is. Each single
  effect, from any component state, leaves the world as it was too, so this does not
  depend on the order in which the effects run.
\<close>

theorem cached_batch_suppresses_fetch:
  "has_window w \<and> db w ''newsapi_news_blogs'' = Some c \<and> ce_news c = Some n \<and>
     ce_blogs c = Some b \<longrightarrow>
   Home_mount ssrNews ssrBlogs hs w =
     Inr (hs\<lparr>hs_news := Some n, hs_blogs := Some b,
             hs_offlineArticles := Some (Some n, Some b)\<rparr>, w) \<and>
   NewsAnalytics_mount ssrNews ssrBlogs ns w =
     (ns\<lparr>na_news := Some n, na_blogs := Some b\<rparr>, w) \<and>
   snd (Home_hydrate ssrNews ssrBlogs hs' w) = w \<and>
   snd (Home_refresh hs' w) = w \<and>
   snd (Home_offline hs' w) = w \<and>
   (case Home_emptyFallback hs' w of Inl e \<Rightarrow> e = TypeError | Inr (s', w') \<Rightarrow> w' = w) \<and>
   snd (NewsAnalytics_hydrate ssrNews ssrBlogs ns' w) = w \<and>
   snd (NewsAnalytics_refresh ns' w) = w \<and>
   snd (NewsAnalytics_offline ns' w) = w"
proof
  assume a: "has_window w \<and> db w ''newsapi_news_blogs'' = Some c \<and> ce_news c = Some n \<and>
     ce_blogs c = Some b"
  then have v: "has_news_blogs (db w ''newsapi_news_blogs'')"
    by (simp add: has_news_blogs_def)
  have f: "case Home_emptyFallback hs' w of Inl e \<Rightarrow> e = TypeError | Inr (s', w') \<Rightarrow> w' = w"
    by (auto simp add: Home_emptyFallback_def Let_def split: option.splits sum.splits)
  from a v f show "Home_mount ssrNews ssrBlogs hs w =
     Inr (hs\<lparr>hs_news := Some n, hs_blogs := Some b,
             hs_offlineArticles := Some (Some n, Some b)\<rparr>, w) \<and>
   NewsAnalytics_mount ssrNews ssrBlogs ns w =
     (ns\<lparr>na_news := Some n, na_blogs := Some b\<rparr>, w) \<and>
   snd (Home_hydrate ssrNews ssrBlogs hs' w) = w \<and>
   snd (Home_refresh hs' w) = w \<and>
   snd (Home_offline hs' w) = w \<and>
   (case Home_emptyFallback hs' w of Inl e \<Rightarrow> e = TypeError | Inr (s', w') \<Rightarrow> w' = w) \<and>
   snd (NewsAnalytics_hydrate ssrNews ssrBlogs ns' w) = w \<and>
   snd (NewsAnalytics_refresh ns' w) = w \<and>
   snd (NewsAnalytics_offline ns' w) = w"
    by (simp add: Home_mount_cached NewsAnalytics_mount_cached Home_effects_read_only
        NewsAnalytics_effects_read_only)
qed

theorem cached_batch_suppresses_fetch_witness:
  "onLine (browser full_store 7200000 empty_provider) \<and>
   Home_mount [] [] (Home_init [] []) (browser full_store 7200000 empty_provider) =
     Inr (\<lparr>hs_news = Some [fed_article], hs_blogs = Some [], hs_apiError = False,
           hs_offlineArticles = Some (Some [fed_article], Some [])\<rparr>,
          browser full_store 7200000 empty_provider) \<and>
   NewsAnalytics_mount [] [] \<lparr>na_news = Some [], na_blogs = Some []\<rparr>
       (browser full_store 7200000 empty_provider) =
     (\<lparr>na_news = Some [fed_article], na_blogs = Some []\<rparr>,
      browser full_store 7200000 empty_provider) \<and>
   snd (Home_refresh (Home_init [] []) (browser full_store 7200000 empty_provider)) =
     browser full_store 7200000 empty_provider \<and>
   snd (NewsAnalytics_refresh \<lparr>na_news = Some [], na_blogs = Some []\<rparr>
          (browser full_store 7200000 empty_provider)) =
     browser full_store 7200000 empty_provider"
  using cached_batch_suppresses_fetch
    [where w = "browser full_store 7200000 empty_provider"
       and c = "pair_entry [fed_article] [] 0" and n = "[fed_article]" and b = "[]"
       and ssrNews = "[]" and ssrBlogs = "[]"
       and hs = "Home_init [] []" and ns = "\<lparr>na_news = Some [], na_blogs = Some []\<rparr>"
       and hs' = "Home_init [] []" and ns' = "\<lparr>na_news = Some [], na_blogs = Some []\<rparr>"]
  by (simp add: browser_def full_store_def pair_entry_def flat_entry_def Home_init_def)

text \<open>
  C4, as stated, fails on the payout page. With a non-empty batch under
  "admin-payout-articles" and the browser online, its refresh effect calls the fetcher all
  the same; the fetcher's own entry being two hours old, both requests go out, and the
  provider's (empty) answer replaces the adopted batch.
\<close>

theorem AdminPayout_fetches_despite_cache:
  "has_articles (db (browser full_store 7200000 empty_provider) ''admin-payout-articles'') \<and>
   requests (snd (AdminPayout_mount [] \<lparr>ap_articles = []\<rparr>
                    (browser full_store 7200000 empty_provider))) = [Technology, General] \<and>
   fst (AdminPayout_mount [] \<lparr>ap_articles = []\<rparr> (browser full_store 7200000 empty_provider)) =
     \<lparr>ap_articles = []\<rparr>"
  by (simp add: AdminPayout_mount_def AdminPayout_hydrate_def AdminPayout_refresh_def
      AdminPayout_offline_def has_articles_def fetchNewsAndBlogs_def fetcher_steps
      example_worlds Let_def)

text \<open>
  C5, as amended. When the refresh effect runs (in a browser that is online, and on the
  dashboard and the analytics page with no entry of both lists in the store) and the
  fetcher fails, the effect ends with a state and raises nothing: the dashboard keeps its
  lists and its offline snapshot and sets its API-error flag; the analytics page and the
  payout page, which have no such flag, keep their whole state.
\<close>

theorem refresh_failure_handled:
  "(has_window w \<and> onLine w \<and> \<not> has_news_blogs (db w ''newsapi_news_blogs'') \<and>
      fst (fetchNewsAndBlogs w) = Inl e \<longrightarrow>
    fst (Home_refresh hs w) = hs\<lparr>hs_apiError := True\<rparr> \<and>
    fst (NewsAnalytics_refresh ns w) = ns) \<and>
   (has_window w \<and> onLine w \<and> fst (fetchNewsAndBlogs w) = Inl e \<longrightarrow>
    fst (AdminPayout_refresh ps w) = ps)"
  by (simp add: Home_refresh_failure NewsAnalytics_refresh_failure AdminPayout_refresh_failure)

theorem refresh_failure_handled_witness:
  "fst (fetchNewsAndBlogs (browser Map.empty 0 unreachable_provider)) = Inl NetworkError \<and>
   fst (Home_refresh (Home_init [fed_article] []) (browser Map.empty 0 unreachable_provider)) =
     \<lparr>hs_news = Some [fed_article], hs_blogs = Some [], hs_apiError = True,
      hs_offlineArticles = None\<rparr> \<and>
   fst (NewsAnalytics_refresh \<lparr>na_news = Some [fed_article], na_blogs = Some []\<rparr>
          (browser Map.empty 0 unreachable_provider)) =
     \<lparr>na_news = Some [fed_article], na_blogs = Some []\<rparr> \<and>
   fst (AdminPayout_refresh \<lparr>ap_articles = [fed_article]\<rparr>
          (browser Map.empty 0 unreachable_provider)) = \<lparr>ap_articles = [fed_article]\<rparr>"
  using refresh_failure_handled
    [where w = "browser Map.empty 0 unreachable_provider" and e = NetworkError
       and hs = "Home_init [fed_article] []"
       and ns = "\<lparr>na_news = Some [fed_article], na_blogs = Some []\<rparr>"
       and ps = "\<lparr>ap_articles = [fed_article]\<rparr>"]
  by (simp add: unreachable_fails) (simp add: browser_def has_news_blogs_def Home_init_def)

text \<open>
  C5, as stated, fails on the analytics page and on the payout page: with the provider
  unreachable the fetcher fails, and their refresh effects end in the state they started
  from, which holds no error flag; only the request is recorded in the world.
\<close>

theorem refresh_failure_silent_on_other_pages:
  "fst (fetchNewsAndBlogs (browser Map.empty 0 unreachable_provider)) = Inl NetworkError \<and>
   NewsAnalytics_refresh \<lparr>na_news = Some [fed_article], na_blogs = Some []\<rparr>
       (browser Map.empty 0 unreachable_provider) =
     (\<lparr>na_news = Some [fed_article], na_blogs = Some []\<rparr>,
      (browser Map.empty 0 unreachable_provider)\<lparr>requests := [Technology]\<rparr>) \<and>
   AdminPayout_refresh \<lparr>ap_articles = [fed_article]\<rparr>
       (browser Map.empty 0 unreachable_provider) =
     (\<lparr>ap_articles = [fed_article]\<rparr>,
      (browser Map.empty 0 unreachable_provider)\<lparr>requests := [Technology]\<rparr>)"
  by (simp add: NewsAnalytics_refresh_def AdminPayout_refresh_def unreachable_fails)
     (simp add: browser_def getFromIndexedDB_def has_news_blogs_def)


subsection \<open>Filtering\<close>

lemma startsWith_lower: "startsWith (toLowerCase s) (toLowerCase t) = starts_with_ci s t"
  by (induction s t rule: starts_with_ci.induct) (simp_all add: toLowerCase_def)

lemma includes_lower: "includes_str (toLowerCase s) (toLowerCase t) = contains_ci s t"
proof (induction s)
  case Nil
  then show ?case using startsWith_lower [of "[]" t] by (simp add: toLowerCase_def)
next
  case (Cons d ds)
  then show ?case using startsWith_lower [of "d # ds" t] by (simp add: toLowerCase_def)
qed

lemma author_or_unknown_eq: "author_or_unknown a = absent_or_empty_as_unknown a"
  by (auto simp add: author_or_unknown_def absent_or_empty_as_unknown_def split: option.splits)

text \<open>Instants and their days.\<close>

lemma utc_day_mono: "x \<le> y \<Longrightarrow> utc_day x \<le> utc_day y"
  by (simp add: utc_day_def msPerDay_def zdiv_mono1)

lemma midnight_le:
  assumes "s mod msPerDay = 0" "utc_day s \<le> utc_day p"
  shows "s \<le> p"
proof -
  have "s = msPerDay * utc_day s" using assms(1) by (auto simp add: utc_day_def)
  also have "\<dots> \<le> msPerDay * utc_day p"
    using assms(2) by (simp add: msPerDay_def)
  also have "\<dots> \<le> p"
    by (simp add: utc_day_def msPerDay_def)
  finally show ?thesis .
qed

lemma earlier_day_less:
  assumes "utc_day p < utc_day e"
  shows "p < e"
proof -
  have "p < msPerDay * (utc_day p + 1)"
    using pos_mod_bound [of msPerDay p] div_mult_mod_eq [of p msPerDay]
    by (simp add: utc_day_def msPerDay_def algebra_simps)
  also have "\<dots> \<le> msPerDay * utc_day e"
    using assms by (simp add: msPerDay_def)
  also have "\<dots> \<le> e"
    by (simp add: utc_day_def msPerDay_def)
  finally show ?thesis .
qed

text \<open>Whatever the code admits is within the inclusive bounds.\<close>

lemma passes_filters_sound:
  "passes_filters newDate f a \<Longrightarrow> admits absent_or_empty_as_unknown newDate f a"
  by (auto simp add: passes_filters_def admits_def includes_lower author_or_unknown_eq
      date_ge_def date_le_def Let_def utc_day_mono split: option.splits if_splits)

text \<open>
  What is within the inclusive bounds is admitted by the code, the articles published
  later on the end day aside.
\<close>

lemma passes_filters_complete:
  assumes "admits absent_or_empty_as_unknown newDate f a" "start_at_midnight newDate f"
    "\<not> later_on_end_day newDate f a"
  shows "passes_filters newDate f a"
proof -
  have search: "includes_str (toLowerCase (title a)) (toLowerCase (searchTerm f)) \<or>
      (case description a of None \<Rightarrow> False
       | Some d \<Rightarrow> includes_str (toLowerCase d) (toLowerCase (searchTerm f)))"
    using assms(1) by (auto simp add: admits_def includes_lower split: option.splits)
  have auth: "selectedAuthor f = ''All'' \<or> author_or_unknown a = selectedAuthor f"
    using assms(1) by (auto simp add: admits_def author_or_unknown_eq)
  have start: "startDate f \<noteq> '''' \<Longrightarrow>
      date_ge (newDate (publishedAt a)) (newDate (startDate f))"
    using assms(1,2)
    by (auto simp add: admits_def start_at_midnight_def date_ge_def split: option.splits
        intro: midnight_le)
  have "endDate f \<noteq> '''' \<Longrightarrow> date_le (newDate (publishedAt a)) (newDate (endDate f))"
  proof -
    assume set: "endDate f \<noteq> ''''"
    then obtain p e where pe: "newDate (publishedAt a) = Some p" "newDate (endDate f) = Some e"
      "utc_day p \<le> utc_day e"
      using assms(1) by (auto simp add: admits_def split: option.splits)
    have "p \<le> e"
    proof (cases "utc_day p = utc_day e")
      case True
      then show ?thesis using assms(3) set pe by (simp add: later_on_end_day_def)
    next
      case False
      then have "utc_day p < utc_day e" using pe(3) by simp
      then show ?thesis using earlier_day_less [of p e] by simp
    qed
    then show ?thesis using pe by (simp add: date_le_def)
  qed
  with search auth start show ?thesis
    by (simp add: passes_filters_def Let_def)
qed

text \<open>The value of a date input is read as the first instant of its day.\<close>

lemma iso_Date_midnight: "length (startDate f) = 10 \<Longrightarrow> start_at_midnight iso_Date f"
  by (auto simp add: start_at_midnight_def iso_Date_def split: option.splits)

text \<open>
  C8, as amended. The callback of the dashboard's filter admits only articles whose title
  or description contains the search term case-insensitively, whose author, with an absent
  or empty author named "Unknown", equals the selected author or "All" is selected, and
  whose publication date is within the inclusive start and end dates that are set. It
  admits every such article that was not published on the end day after the first instant
  of that day, the start bound being the first instant of its day, as the value of a date
  input is; of the articles published later on the end day nothing is said. The article of
  the example passes with the selected author "Jane" and is excluded with "John".
\<close>

theorem filtering_predicate:
  "(passes_filters newDate f a \<longrightarrow> admits absent_or_empty_as_unknown newDate f a) \<and>
   (admits absent_or_empty_as_unknown newDate f a \<and> start_at_midnight newDate f \<and>
      \<not> later_on_end_day newDate f a \<longrightarrow>
    passes_filters newDate f a) \<and>
   (length (startDate f) = 10 \<longrightarrow> start_at_midnight iso_Date f) \<and>
   filtered iso_Date (fed_filters ''Jane'') [fed_article] = [fed_article] \<and>
   filtered iso_Date (fed_filters ''John'') [fed_article] = []"
proof (intro conjI impI)
  assume "passes_filters newDate f a"
  then show "admits absent_or_empty_as_unknown newDate f a" by (rule passes_filters_sound)
next
  assume "admits absent_or_empty_as_unknown newDate f a \<and> start_at_midnight newDate f \<and>
      \<not> later_on_end_day newDate f a"
  then show "passes_filters newDate f a" by (simp add: passes_filters_complete)
next
  assume "length (startDate f) = 10"
  then show "start_at_midnight iso_Date f" by (rule iso_Date_midnight)
next
  have "passes_filters iso_Date (fed_filters ''Jane'') fed_article" by code_simp
  then show "filtered iso_Date (fed_filters ''Jane'') [fed_article] = [fed_article]"
    by (simp add: filtered_def)
next
  have "\<not> passes_filters iso_Date (fed_filters ''John'') fed_article" by code_simp
  then show "filtered iso_Date (fed_filters ''John'') [fed_article] = []"
    by (simp add: filtered_def)
qed

theorem filtering_predicate_witness:
  "passes_filters iso_Date (fed_filters ''Jane'') fed_article \<and>
   admits absent_or_empty_as_unknown iso_Date (fed_filters ''Jane'') fed_article \<and>
   length (startDate (fed_filters ''Jane'')) = 10 \<and>
   start_at_midnight iso_Date (fed_filters ''Jane'') \<and>
   admits absent_or_empty_as_unknown iso_Date (fed_filters ''Jane'')
     (fed_article\<lparr>publishedAt := ''2024-02-01T15:00:00Z''\<rparr>) \<and>
   \<not> later_on_end_day iso_Date (fed_filters ''Jane'')
       (fed_article\<lparr>publishedAt := ''2024-02-01T15:00:00Z''\<rparr>) \<and>
   passes_filters iso_Date (fed_filters ''Jane'')
     (fed_article\<lparr>publishedAt := ''2024-02-01T15:00:00Z''\<rparr>)"
proof -
  have p: "passes_filters iso_Date (fed_filters ''Jane'') fed_article" by code_simp
  have l: "length (startDate (fed_filters ''Jane'')) = 10" by (simp add: fed_filters_def)
  have a: "admits absent_or_empty_as_unknown iso_Date (fed_filters ''Jane'')
     (fed_article\<lparr>publishedAt := ''2024-02-01T15:00:00Z''\<rparr>)" by code_simp
  have n: "\<not> later_on_end_day iso_Date (fed_filters ''Jane'')
       (fed_article\<lparr>publishedAt := ''2024-02-01T15:00:00Z''\<rparr>)" by code_simp
  note t = filtering_predicate [where newDate = iso_Date and f = "fed_filters ''Jane''"]
  have m: "start_at_midnight iso_Date (fed_filters ''Jane'')"
    using l t [where a = fed_article] by blast
  have "admits absent_or_empty_as_unknown iso_Date (fed_filters ''Jane'') fed_article"
    using p t [where a = fed_article] by blast
  moreover have "passes_filters iso_Date (fed_filters ''Jane'')
     (fed_article\<lparr>publishedAt := ''2024-02-01T15:00:00Z''\<rparr>)"
    using a m n t [where a = "fed_article\<lparr>publishedAt := ''2024-02-01T15:00:00Z''\<rparr>"]
    by blast
  ultimately show ?thesis using p l m a n by blast
qed

text \<open>
  C8, as stated, fails in two places. An author that is the empty string is named
  "Unknown" by the code as well, so the article passes when "Unknown" is selected, while
  an author that is present, though empty, is not the selected one. And the end bound is
  compared as the first instant of the end date: an article published at 09:30 on the end
  date 2024-04-01 is within the inclusive bounds and is excluded by the code.
\<close>

theorem filtering_differs_from_claim:
  "passes_filters iso_Date (fed_filters ''Unknown'') (fed_article\<lparr>author := Some ''''\<rparr>) \<and>
   \<not> admits absent_as_unknown iso_Date (fed_filters ''Unknown'')
       (fed_article\<lparr>author := Some ''''\<rparr>) \<and>
   admits absent_as_unknown iso_Date (fed_filters ''Jane'')
     (fed_article\<lparr>publishedAt := ''2024-04-01T09:30:00Z''\<rparr>) \<and>
   \<not> passes_filters iso_Date (fed_filters ''Jane'')
       (fed_article\<lparr>publishedAt := ''2024-04-01T09:30:00Z''\<rparr>)"
proof (intro conjI)
  show "passes_filters iso_Date (fed_filters ''Unknown'') (fed_article\<lparr>author := Some ''''\<rparr>)"
    by code_simp
  show "\<not> admits absent_as_unknown iso_Date (fed_filters ''Unknown'')
       (fed_article\<lparr>author := Some ''''\<rparr>)"
    by (simp add: admits_def absent_as_unknown_def fed_filters_def fed_article_def)
  show "admits absent_as_unknown iso_Date (fed_filters ''Jane'')
     (fed_article\<lparr>publishedAt := ''2024-04-01T09:30:00Z''\<rparr>)"
    by code_simp
  show "\<not> passes_filters iso_Date (fed_filters ''Jane'')
       (fed_article\<lparr>publishedAt := ''2024-04-01T09:30:00Z''\<rparr>)"
    by code_simp
qed

subsection \<open>Grouping and payout\<close>

lemma map_of_add_article:
  "map_of (add_article m a) =
     (map_of m)(article_key a \<mapsto>
        (case map_of m (article_key a) of
           None \<Rightarrow> \<lparr>g_author = author_or_unknown a, g_type = atype a, g_count = 1\<rparr>
         | Some g \<Rightarrow> g\<lparr>g_count := g_count g + 1\<rparr>))"
  by (auto simp add: add_article_def article_key_def Let_def map_of_map_entry update_conv'
      fun_eq_iff)

lemma grouped_snoc: "grouped (xs @ [x]) = add_article (grouped xs) x"
  by (simp add: grouped_def)

lemma grouped_count:
  "map_option g_count (map_of (grouped arts) k) =
     (if (\<exists>a\<in>set arts. article_key a = k)
      then Some (length (filter (\<lambda>a. article_key a = k) arts)) else None)"
proof (induction arts rule: rev_induct)
  case Nil
  then show ?case by (simp add: grouped_def)
next
  case (snoc x xs)
  show ?case
  proof (cases "article_key x = k")
    case True
    then show ?thesis using snoc
      by (auto simp add: grouped_snoc map_of_add_article split: option.splits if_splits)
  next
    case False
    then show ?thesis using snoc
      by (auto simp add: grouped_snoc map_of_add_article)
  qed
qed

lemma distinct_add_article:
  "distinct (map fst m) \<Longrightarrow> distinct (map fst (add_article m a))"
  by (simp add: add_article_def Let_def distinct_update distinct_map_entry)

lemma grouped_distinct: "distinct (map fst (grouped arts))"
  by (induction arts rule: rev_induct) (simp_all add: grouped_def distinct_add_article)

lemma rows_total:
  "r \<in> set (payout_rows rates m) \<Longrightarrow>
     row_total r = js_times (Fin (of_nat (row_count r))) (row_rate r) \<and>
     row_rate r = rate_or_default rates (author_type_key (row_author r) (row_type r))"
  by (auto simp add: payout_rows_def Let_def)

lemma handleRateChange_keeps:
  assumes "\<forall>k r. rates k = Some r \<longrightarrow> \<not> isNaN r \<and> ge_zero r"
  shows "\<forall>k r. handleRateChange N rates a t v k = Some r \<longrightarrow> \<not> isNaN r \<and> ge_zero r"
  using assms by (auto simp add: handleRateChange_def Let_def)

lemma rates_after_snoc:
  "rates_after N (es @ [(a, t, v)]) = handleRateChange N (rates_after N es) a t v"
  by (simp add: rates_after_def)

lemma rates_after_nonneg:
  "\<forall>k r. rates_after N edits k = Some r \<longrightarrow> \<not> isNaN r \<and> ge_zero r"
proof (induction edits rule: rev_induct)
  case Nil
  then show ?case by (simp add: rates_after_def)
next
  case (snoc e es)
  obtain a t v where e: "e = (a, t, v)" by (cases e)
  show ?case unfolding e rates_after_snoc by (rule handleRateChange_keeps [OF snoc])
qed

lemma rate_or_default_nonneg:
  "\<forall>k r. rates k = Some r \<longrightarrow> \<not> isNaN r \<and> ge_zero r \<Longrightarrow>
   \<not> isNaN (rate_or_default rates key) \<and> ge_zero (rate_or_default rates key)"
  by (auto simp add: rate_or_default_def isNaN_def ge_zero_def split: option.splits)

lemma filteredArticles_All: "filteredArticles ''All'' ''All'' articles = articles"
  by (simp add: filteredArticles_def)

lemma jane_grouped:
  "grouped [jane ''news'', jane ''news'', jane ''blogs''] =
     [(''Jane|||news'', \<lparr>g_author = ''Jane'', g_type = ''news'', g_count = 2\<rparr>),
      (''Jane|||blogs'', \<lparr>g_author = ''Jane'', g_type = ''blogs'', g_count = 1\<rparr>)]"
  by (simp add: grouped_def add_article_def jane_def author_or_unknown_def
      author_type_key_def Let_def)

lemma jane_rows:
  "payout_rows [''Jane|||news'' \<mapsto> Fin 3]
     (grouped [jane ''news'', jane ''news'', jane ''blogs'']) =
     [\<lparr>row_author = ''Jane'', row_type = ''news'', row_count = 2, row_rate = Fin 3,
       row_total = Fin 6\<rparr>,
      \<lparr>row_author = ''Jane'', row_type = ''blogs'', row_count = 1, row_rate = Fin 2,
       row_total = Fin 2\<rparr>]"
  by (simp add: jane_grouped payout_rows_def rate_or_default_def author_type_key_def
      js_times_def Let_def)

lemma example_rates:
  "rates_after example_Number
     [(''Jane'', ''news'', ''3''), (''Jane'', ''news'', ''-1''), (''Jane'', ''blogs'', ''abc'')] =
   [''Jane|||news'' \<mapsto> Fin 3]"
  by (simp add: rates_after_def handleRateChange_def example_Number_def isNaN_def
      ge_zero_def author_type_key_def)

text \<open>
  The key separates author and type: for articles of type "news" or "blogs", as the
  fetcher produces them, two articles have the same key exactly when they have the same
  author name and the same type.
\<close>

lemma news_blogs_suffix: "a @ ''|||news'' \<noteq> b @ ''|||blogs''"
proof
  assume "a @ ''|||news'' = b @ ''|||blogs''"
  then have "rev (a @ ''|||news'') = rev (b @ ''|||blogs'')" by simp
  then show False by simp
qed

lemma article_key_inj:
  assumes "atype a = ''news'' \<or> atype a = ''blogs''" "atype b = ''news'' \<or> atype b = ''blogs''"
  shows "(article_key a = article_key b) =
         (author_or_unknown a = author_or_unknown b \<and> atype a = atype b)"
  using assms news_blogs_suffix [of "author_or_unknown a" "author_or_unknown b"]
    news_blogs_suffix [of "author_or_unknown b" "author_or_unknown a"]
  by (auto simp add: article_key_def author_type_key_def)

text \<open>
  The entry under a key carries an author and a type that make up this key, and each key
  of an article has an entry.
\<close>

lemma grouped_key:
  "map_of (grouped arts) k = Some g \<Longrightarrow> author_type_key (g_author g) (g_type g) = k"
proof (induction arts arbitrary: g rule: rev_induct)
  case Nil
  then show ?case by (simp add: grouped_def)
next
  case (snoc x xs)
  show ?case
  proof (cases "article_key x = k")
    case True
    then show ?thesis using snoc
      by (auto simp add: grouped_snoc map_of_add_article article_key_def split: option.splits)
  next
    case False
    then show ?thesis using snoc by (auto simp add: grouped_snoc map_of_add_article)
  qed
qed

lemma grouped_keys: "fst ` set (grouped arts) = article_key ` set arts"
proof -
  have "dom (map_of (grouped arts)) = article_key ` set arts"
  proof (rule set_eqI)
    fix k
    show "k \<in> dom (map_of (grouped arts)) \<longleftrightarrow> k \<in> article_key ` set arts"
      using grouped_count [of arts k]
      by (cases "map_of (grouped arts) k") (auto split: if_splits)
  qed
  then show ?thesis by (simp add: dom_map_of_conv_image_fst)
qed

lemma grouped_entry:
  assumes "(k, g) \<in> set (grouped arts)"
  shows "g_count g = length (filter (\<lambda>a. article_key a = k) arts)"
    and "author_type_key (g_author g) (g_type g) = k"
proof -
  have m: "map_of (grouped arts) k = Some g"
    using assms grouped_distinct [of arts] by (rule_tac map_of_is_SomeI)
  show "g_count g = length (filter (\<lambda>a. article_key a = k) arts)"
    using grouped_count [of arts k] m by (auto split: if_splits)
  show "author_type_key (g_author g) (g_type g) = k"
    using m by (rule grouped_key)
qed

text \<open>
  The table has one row for each entry of \<open>grouped\<close>, in its order: the row shows the
  author and the type of the entry, the number of articles with the key of the entry, the
  rate stored under this key, or 2, and the product of the two.
\<close>

lemma payout_rows_grouped:
  "payout_rows rates (grouped arts) =
     map (\<lambda>(k, g).
            \<lparr>row_author = g_author g, row_type = g_type g,
             row_count = length (filter (\<lambda>a. article_key a = k) arts),
             row_rate = (case rates k of None \<Rightarrow> Fin 2 | Some q \<Rightarrow> q),
             row_total =
               js_times (Fin (of_nat (length (filter (\<lambda>a. article_key a = k) arts))))
                 (case rates k of None \<Rightarrow> Fin 2 | Some q \<Rightarrow> q)\<rparr>)
         (grouped arts)"
  unfolding payout_rows_def map_map
  by (rule map_cong [OF refl])
     (auto simp add: Let_def rate_or_default_def grouped_entry split: option.splits)

text \<open>
  C9. \<open>grouped\<close> has, under each key of author and type, the number of articles with that
  key, and no entry for a key that no article has; each key occurs once, and the keys are
  those of the articles. For articles of type "news" or "blogs" the key stands for the
  pair of author and type. The payout table has one row for each entry: it shows the
  entry's author and type, as count the number of articles with the entry's key, as rate
  the one stored under this key, or 2 when none is stored, and as total the count times
  the rate. For two articles of Jane of type "news" and one of type "blogs" the counts are
  2 and 1; with the rate 3 stored for Jane and "news" that total is 6 (and the other, at
  the default rate, 2).
\<close>

theorem grouping_and_payout:
  "map_option g_count (map_of (grouped arts) k) =
     (if (\<exists>a\<in>set arts. article_key a = k)
      then Some (length (filter (\<lambda>a. article_key a = k) arts)) else None) \<and>
   distinct (map fst (grouped arts)) \<and>
   fst ` set (grouped arts) = article_key ` set arts \<and>
   ((atype a = ''news'' \<or> atype a = ''blogs'') \<and> (atype b = ''news'' \<or> atype b = ''blogs'') \<longrightarrow>
    (article_key a = article_key b) =
    (author_or_unknown a = author_or_unknown b \<and> atype a = atype b)) \<and>
   payout_rows rates (grouped arts) =
     map (\<lambda>(k, g).
            \<lparr>row_author = g_author g, row_type = g_type g,
             row_count = length (filter (\<lambda>a. article_key a = k) arts),
             row_rate = (case rates k of None \<Rightarrow> Fin 2 | Some q \<Rightarrow> q),
             row_total =
               js_times (Fin (of_nat (length (filter (\<lambda>a. article_key a = k) arts))))
                 (case rates k of None \<Rightarrow> Fin 2 | Some q \<Rightarrow> q)\<rparr>)
         (grouped arts) \<and>
   (\<forall>(k, g)\<in>set (grouped arts). author_type_key (g_author g) (g_type g) = k) \<and>
   (\<forall>r\<in>set (payout_rows rates (grouped arts)).
      row_rate r =
        (case rates (author_type_key (row_author r) (row_type r)) of
           None \<Rightarrow> Fin 2 | Some q \<Rightarrow> q) \<and>
      row_total r = js_times (Fin (of_nat (row_count r))) (row_rate r)) \<and>
   grouped (filteredArticles ''All'' ''All'' [jane ''news'', jane ''news'', jane ''blogs'']) =
     [(''Jane|||news'', \<lparr>g_author = ''Jane'', g_type = ''news'', g_count = 2\<rparr>),
      (''Jane|||blogs'', \<lparr>g_author = ''Jane'', g_type = ''blogs'', g_count = 1\<rparr>)] \<and>
   payout_rows [''Jane|||news'' \<mapsto> Fin 3]
     (grouped (filteredArticles ''All'' ''All'' [jane ''news'', jane ''news'', jane ''blogs''])) =
     [\<lparr>row_author = ''Jane'', row_type = ''news'', row_count = 2, row_rate = Fin 3,
       row_total = Fin 6\<rparr>,
      \<lparr>row_author = ''Jane'', row_type = ''blogs'', row_count = 1, row_rate = Fin 2,
       row_total = Fin 2\<rparr>]"
proof (intro conjI ballI impI)
  show "map_option g_count (map_of (grouped arts) k) =
     (if (\<exists>a\<in>set arts. article_key a = k)
      then Some (length (filter (\<lambda>a. article_key a = k) arts)) else None)"
    by (rule grouped_count)
  show "distinct (map fst (grouped arts))" by (rule grouped_distinct)
  show "fst ` set (grouped arts) = article_key ` set arts" by (rule grouped_keys)
  show "payout_rows rates (grouped arts) =
     map (\<lambda>(k, g).
            \<lparr>row_author = g_author g, row_type = g_type g,
             row_count = length (filter (\<lambda>a. article_key a = k) arts),
             row_rate = (case rates k of None \<Rightarrow> Fin 2 | Some q \<Rightarrow> q),
             row_total =
               js_times (Fin (of_nat (length (filter (\<lambda>a. article_key a = k) arts))))
                 (case rates k of None \<Rightarrow> Fin 2 | Some q \<Rightarrow> q)\<rparr>)
         (grouped arts)"
    by (rule payout_rows_grouped)
  show "payout_rows [''Jane|||news'' \<mapsto> Fin 3]
     (grouped (filteredArticles ''All'' ''All'' [jane ''news'', jane ''news'', jane ''blogs''])) =
     [\<lparr>row_author = ''Jane'', row_type = ''news'', row_count = 2, row_rate = Fin 3,
       row_total = Fin 6\<rparr>,
      \<lparr>row_author = ''Jane'', row_type = ''blogs'', row_count = 1, row_rate = Fin 2,
       row_total = Fin 2\<rparr>]"
    by (simp add: filteredArticles_All jane_rows)
  show "grouped (filteredArticles ''All'' ''All'' [jane ''news'', jane ''news'', jane ''blogs'']) =
     [(''Jane|||news'', \<lparr>g_author = ''Jane'', g_type = ''news'', g_count = 2\<rparr>),
      (''Jane|||blogs'', \<lparr>g_author = ''Jane'', g_type = ''blogs'', g_count = 1\<rparr>)]"
    by (simp add: filteredArticles_All jane_grouped)
next
  assume "(atype a = ''news'' \<or> atype a = ''blogs'') \<and> (atype b = ''news'' \<or> atype b = ''blogs'')"
  then show "(article_key a = article_key b) =
    (author_or_unknown a = author_or_unknown b \<and> atype a = atype b)"
    using article_key_inj [of a b] by blast
next
  fix x assume "x \<in> set (grouped arts)"
  then show "case x of (k, g) \<Rightarrow> author_type_key (g_author g) (g_type g) = k"
    using grouped_entry(2) [of "fst x" "snd x" arts] by (simp add: case_prod_beta)
next
  fix r assume "r \<in> set (payout_rows rates (grouped arts))"
  then show "row_rate r =
        (case rates (author_type_key (row_author r) (row_type r)) of
           None \<Rightarrow> Fin 2 | Some q \<Rightarrow> q)"
    and "row_total r = js_times (Fin (of_nat (row_count r))) (row_rate r)"
    using rows_total [of r rates "grouped arts"] by (simp_all add: rate_or_default_def)
qed

theorem grouping_and_payout_witness:
  "map_option g_count
     (map_of (grouped [jane ''news'', jane ''news'', jane ''blogs'']) ''Jane|||news'') = Some 2 \<and>
   article_key (jane ''news'') \<noteq> article_key (jane ''blogs'') \<and>
   (''Jane|||news'', \<lparr>g_author = ''Jane'', g_type = ''news'', g_count = 2\<rparr>)
     \<in> set (grouped [jane ''news'', jane ''news'', jane ''blogs'']) \<and>
   author_type_key ''Jane'' ''news'' = ''Jane|||news'' \<and>
   \<lparr>row_author = ''Jane'', row_type = ''news'', row_count = 2, row_rate = Fin 3,
     row_total = Fin 6\<rparr>
     \<in> set (payout_rows [''Jane|||news'' \<mapsto> Fin 3]
              (grouped [jane ''news'', jane ''news'', jane ''blogs''])) \<and>
   Fin 3 = (case [''Jane|||news'' \<mapsto> Fin 3] (author_type_key ''Jane'' ''news'') of
              None \<Rightarrow> Fin 2 | Some q \<Rightarrow> q) \<and>
   Fin 6 = js_times (Fin (of_nat 2)) (Fin 3)"
proof -
  have k: "article_key (jane ''news'') = ''Jane|||news''"
    "article_key (jane ''blogs'') = ''Jane|||blogs''"
    by (simp_all add: article_key_def jane_def author_or_unknown_def author_type_key_def)
  note t = grouping_and_payout
    [where arts = "[jane ''news'', jane ''news'', jane ''blogs'']" and k = "''Jane|||news''"
       and rates = "[''Jane|||news'' \<mapsto> Fin 3]" and a = "jane ''news''"
       and b = "jane ''blogs''"]
  have c: "map_option g_count
     (map_of (grouped [jane ''news'', jane ''news'', jane ''blogs'']) ''Jane|||news'') = Some 2"
    using t [THEN conjunct1] by (auto simp add: k)
  have "(article_key (jane ''news'') = article_key (jane ''blogs'')) =
        (author_or_unknown (jane ''news'') = author_or_unknown (jane ''blogs'') \<and>
         atype (jane ''news'') = atype (jane ''blogs''))"
    using t by (simp add: jane_def)
  then have i: "article_key (jane ''news'') \<noteq> article_key (jane ''blogs'')"
    by (simp add: jane_def)
  have g: "(''Jane|||news'', \<lparr>g_author = ''Jane'', g_type = ''news'', g_count = 2\<rparr>)
     \<in> set (grouped [jane ''news'', jane ''news'', jane ''blogs''])"
    by (simp add: jane_grouped)
  have "case (''Jane|||news'', \<lparr>g_author = ''Jane'', g_type = ''news'', g_count = 2\<rparr>) of
          (k, g) \<Rightarrow> author_type_key (g_author g) (g_type g) = k"
    using t g by blast
  then have j: "author_type_key ''Jane'' ''news'' = ''Jane|||news''" by simp
  have m: "\<lparr>row_author = ''Jane'', row_type = ''news'', row_count = 2, row_rate = Fin 3,
     row_total = Fin 6\<rparr>
     \<in> set (payout_rows [''Jane|||news'' \<mapsto> Fin 3]
              (grouped [jane ''news'', jane ''news'', jane ''blogs'']))"
    by (simp add: jane_rows)
  have "row_rate \<lparr>row_author = ''Jane'', row_type = ''news'', row_count = 2, row_rate = Fin 3,
          row_total = Fin 6\<rparr> =
        (case [''Jane|||news'' \<mapsto> Fin 3]
                (author_type_key
                   (row_author \<lparr>row_author = ''Jane'', row_type = ''news'', row_count = 2,
                      row_rate = Fin 3, row_total = Fin 6\<rparr>)
                   (row_type \<lparr>row_author = ''Jane'', row_type = ''news'', row_count = 2,
                      row_rate = Fin 3, row_total = Fin 6\<rparr>)) of
           None \<Rightarrow> Fin 2 | Some q \<Rightarrow> q) \<and>
        row_total \<lparr>row_author = ''Jane'', row_type = ''news'', row_count = 2, row_rate = Fin 3,
          row_total = Fin 6\<rparr> =
        js_times (Fin (of_nat (row_count \<lparr>row_author = ''Jane'', row_type = ''news'',
          row_count = 2, row_rate = Fin 3, row_total = Fin 6\<rparr>)))
          (row_rate \<lparr>row_author = ''Jane'', row_type = ''news'', row_count = 2,
             row_rate = Fin 3, row_total = Fin 6\<rparr>)"
    using t m by blast
  then have "Fin 3 = (case [''Jane|||news'' \<mapsto> Fin 3] (author_type_key ''Jane'' ''news'') of
              None \<Rightarrow> Fin 2 | Some q \<Rightarrow> q) \<and>
     Fin 6 = js_times (Fin (of_nat 2)) (Fin 3)"
    by simp
  with c i g j m show ?thesis by blast
qed

text \<open>
  C10. Starting from the empty object, after any sequence of edits of rate cells every
  stored rate is a number that is not \<^verbatim>\<open>NaN\<close> and is at least 0: \<open>handleRateChange\<close>
  stores the parsed input under the key of the cell when it is not \<^verbatim>\<open>NaN\<close> and at least 0,
  and returns the rates unchanged otherwise. So every payout row has a rate that is not
  \<^verbatim>\<open>NaN\<close> and at least 0, and its total is its count times that rate.
\<close>

theorem stored_rates_nonnegative:
  "(rates_after Number edits k = Some q \<longrightarrow> \<not> isNaN q \<and> ge_zero q) \<and>
   handleRateChange Number rates author' type v =
     (if \<not> isNaN (Number v) \<and> ge_zero (Number v)
      then rates(author_type_key author' type \<mapsto> Number v) else rates) \<and>
   (\<forall>r\<in>set (payout_rows (rates_after Number edits) m).
      \<not> isNaN (row_rate r) \<and> ge_zero (row_rate r) \<and>
      row_total r = js_times (Fin (of_nat (row_count r))) (row_rate r))"
proof (intro conjI ballI)
  show "rates_after Number edits k = Some q \<longrightarrow> \<not> isNaN q \<and> ge_zero q"
    using rates_after_nonneg [of Number edits] by blast
  show "handleRateChange Number rates author' type v =
     (if \<not> isNaN (Number v) \<and> ge_zero (Number v)
      then rates(author_type_key author' type \<mapsto> Number v) else rates)"
    by (simp add: handleRateChange_def Let_def)
next
  fix r assume r: "r \<in> set (payout_rows (rates_after Number edits) m)"
  have "\<not> isNaN (rate_or_default (rates_after Number edits)
                   (author_type_key (row_author r) (row_type r))) \<and>
        ge_zero (rate_or_default (rates_after Number edits)
                   (author_type_key (row_author r) (row_type r)))"
    by (rule rate_or_default_nonneg [OF rates_after_nonneg])
  then show "\<not> isNaN (row_rate r)" and "ge_zero (row_rate r)"
    using rows_total [OF r] by simp_all
  show "row_total r = js_times (Fin (of_nat (row_count r))) (row_rate r)"
    using rows_total [OF r] by simp
qed

theorem stored_rates_nonnegative_witness:
  "rates_after example_Number
     [(''Jane'', ''news'', ''3''), (''Jane'', ''news'', ''-1''), (''Jane'', ''blogs'', ''abc'')]
     ''Jane|||news'' = Some (Fin 3) \<and>
   \<not> isNaN (Fin 3) \<and> ge_zero (Fin 3) \<and>
   handleRateChange example_Number [''Jane|||news'' \<mapsto> Fin 3] ''Jane'' ''news'' ''-1'' =
     [''Jane|||news'' \<mapsto> Fin 3] \<and>
   handleRateChange example_Number Map.empty ''Jane'' ''news'' ''3'' =
     [''Jane|||news'' \<mapsto> Fin 3] \<and>
   \<lparr>row_author = ''Jane'', row_type = ''news'', row_count = 2, row_rate = Fin 3,
     row_total = Fin 6\<rparr>
     \<in> set (payout_rows
              (rates_after example_Number
                 [(''Jane'', ''news'', ''3''), (''Jane'', ''news'', ''-1''),
                  (''Jane'', ''blogs'', ''abc'')])
              (grouped [jane ''news'', jane ''news'', jane ''blogs''])) \<and>
   Fin 6 = js_times (Fin (of_nat 2)) (Fin 3)"
proof -
  note t = stored_rates_nonnegative
    [where Number = example_Number
       and edits = "[(''Jane'', ''news'', ''3''), (''Jane'', ''news'', ''-1''),
                     (''Jane'', ''blogs'', ''abc'')]"
       and k = "''Jane|||news''" and q = "Fin 3"
       and m = "grouped [jane ''news'', jane ''news'', jane ''blogs'']"]
  have a: "rates_after example_Number
     [(''Jane'', ''news'', ''3''), (''Jane'', ''news'', ''-1''), (''Jane'', ''blogs'', ''abc'')]
     ''Jane|||news'' = Some (Fin 3)"
    by (simp add: example_rates)
  have b: "\<not> isNaN (Fin 3) \<and> ge_zero (Fin 3)"
    using a t [where rates = Map.empty and author' = "''Jane''" and type = "''news''"
                 and v = "''3''"]
    by blast
  have c: "handleRateChange example_Number [''Jane|||news'' \<mapsto> Fin 3] ''Jane'' ''news'' ''-1'' =
     [''Jane|||news'' \<mapsto> Fin 3]"
    using t [where rates = "[''Jane|||news'' \<mapsto> Fin 3]" and author' = "''Jane''"
               and type = "''news''" and v = "''-1''"]
    by (simp add: example_Number_def isNaN_def ge_zero_def)
  have d: "handleRateChange example_Number Map.empty ''Jane'' ''news'' ''3'' =
     [''Jane|||news'' \<mapsto> Fin 3]"
    using t [where rates = Map.empty and author' = "''Jane''" and type = "''news''"
               and v = "''3''"]
    by (simp add: example_Number_def isNaN_def ge_zero_def author_type_key_def)
  have m: "\<lparr>row_author = ''Jane'', row_type = ''news'', row_count = 2, row_rate = Fin 3,
     row_total = Fin 6\<rparr>
     \<in> set (payout_rows
              (rates_after example_Number
                 [(''Jane'', ''news'', ''3''), (''Jane'', ''news'', ''-1''),
                  (''Jane'', ''blogs'', ''abc'')])
              (grouped [jane ''news'', jane ''news'', jane ''blogs'']))"
    by (simp add: example_rates jane_rows)
  have "row_total \<lparr>row_author = ''Jane'', row_type = ''news'', row_count = 2, row_rate = Fin 3,
          row_total = Fin 6\<rparr> =
        js_times (Fin (of_nat (row_count \<lparr>row_author = ''Jane'', row_type = ''news'',
          row_count = 2, row_rate = Fin 3, row_total = Fin 6\<rparr>)))
          (row_rate \<lparr>row_author = ''Jane'', row_type = ''news'', row_count = 2,
             row_rate = Fin 3, row_total = Fin 6\<rparr>)"
    using t [where rates = Map.empty and author' = "''Jane''" and type = "''news''"
               and v = "''3''"] m
    by blast
  then have e: "Fin 6 = js_times (Fin (of_nat 2)) (Fin 3)" by simp
  from a b c d m e show ?thesis by blast
qed

end
